theory Spec2Isabelle
  imports Main
begin

section \<open>JavaScript values and cache entries\<close>

text \<open>
  The two packages verified here are \<^verbatim>\<open>@frontity/wp-source/src/actions.ts\<close> (the
  \<^verbatim>\<open>fetch\<close> and \<^verbatim>\<open>init\<close> actions) and \<^verbatim>\<open>@frontity/tiny-router/src/actions.ts\<close>
  (the \<^verbatim>\<open>set\<close> action). A cache entry \<^verbatim>\<open>source.data[link]\<close> is a plain JavaScript
  object whose set of properties changes at run time (\<^verbatim>\<open>is404\<close>, \<^verbatim>\<open>isHome\<close>, whatever a
  handler adds), so it is a finite map from property names to values. Reading a property
  that is absent yields \<^verbatim>\<open>undefined\<close>, which is \<open>None\<close> here. The cache maps each link
  to its own entry: one object stored under two links, as the router's \<^verbatim>\<open>init\<close> does in
  the browser, is outside the model, so a write to the entry of one link is never seen
  under another link here.
\<close>

datatype jsval =
    JUndefined
  | JNull
  | JBool bool
  | JNum int
  | JStr string
  | JObj "(string \<times> jsval) list"

type_synonym entry = "string \<rightharpoonup> jsval"

type_synonym params = "string \<rightharpoonup> string"

text \<open>JavaScript truthiness of a value, and of a property read from an object.\<close>

fun truthy_val :: "jsval \<Rightarrow> bool" where
  "truthy_val JUndefined = False"
| "truthy_val JNull = False"
| "truthy_val (JBool b) = b"
| "truthy_val (JNum n) = (n \<noteq> 0)"
| "truthy_val (JStr s) = (s \<noteq> [])"
| "truthy_val (JObj kvs) = True"

fun truthy :: "jsval option \<Rightarrow> bool" where
  "truthy None = False"
| "truthy (Some v) = truthy_val v"

text \<open>
  \<^verbatim>\<open>x || y\<close> on optional strings, as in \<^verbatim>\<open>state.source.subdirectory || "/"\<close>: the left
  operand when it is a non-empty string, the right one otherwise.
\<close>

fun truthy_str :: "string option \<Rightarrow> bool" where
  "truthy_str None = False"
| "truthy_str (Some s) = (s \<noteq> [])"

definition or_else :: "string option \<Rightarrow> string \<Rightarrow> string" where
  "or_else x y = (case x of None \<Rightarrow> y | Some s \<Rightarrow> if s = [] then y else s)"

text \<open>
  The template literal \<^verbatim>\<open>`is${e.status}`\<close> prints the status in decimal. Statuses are
  HTTP status codes, modelled as natural numbers.
\<close>

definition digit_char :: "nat \<Rightarrow> char" where
  "digit_char d = ''0123456789'' ! (d mod 10)"

function string_of_nat :: "nat \<Rightarrow> string" where
  "string_of_nat n =
     (if n < 10 then [digit_char n] else string_of_nat (n div 10) @ [digit_char (n mod 10)])"
  by pat_completeness auto
termination
  by (relation "measure (\<lambda>n. n)") auto

declare string_of_nat.simps [simp del]

section \<open>State, libraries and the imported functions\<close>

record link_params =
  route :: string
  query :: jsval
  page :: jsval
  queryString :: string

record post_type =
  pt_type :: string
  pt_endpoint :: string
  pt_archive :: "string option"

record taxonomy =
  tx_taxonomy :: string
  tx_endpoint :: string
  tx_postTypeEndpoint :: "string option"
  tx_params :: jsval

text \<open>
  \<open>state\<close> holds \<^verbatim>\<open>state.source\<close> (the cache \<^verbatim>\<open>data\<close> and the settings that the
  two actions read) and \<^verbatim>\<open>state.frontity.options.sourceAuth\<close>.
\<close>

record state =
  data :: "string \<rightharpoonup> entry"
  api :: string
  isWpCom :: bool
  auth :: "string option"
  sourceAuth :: "string option"
  postTypes :: "post_type list"
  taxonomies :: "taxonomy list"
  subdirectory :: "string option"
  homepage :: "string option"
  postsPage :: "string option"
  categoryBase :: "string option"
  tagBase :: "string option"
  authorBase :: "string option"

text \<open>
  What can be thrown inside \<^verbatim>\<open>fetch\<close>: a \<^verbatim>\<open>ServerError\<close> with its message, status and
  status text, the \<^verbatim>\<open>TypeError\<close> that JavaScript raises when a property of
  \<^verbatim>\<open>undefined\<close> is used, and any other exception of a handler.
\<close>

datatype exn =
    ServerError string nat jsval
  | TypeError string
  | OtherError string

text \<open>\<^verbatim>\<open>e instanceof ServerError\<close>.\<close>

fun instanceof_ServerError :: "exn \<Rightarrow> bool" where
  "instanceof_ServerError (ServerError message status statusText) = True"
| "instanceof_ServerError e = False"

text \<open>
  A handler is called with \<^verbatim>\<open>{ link, route: link, params, state, libraries, force }\<close>. It
  is asynchronous and works by mutating \<^verbatim>\<open>state\<close>: it maps the state to the state it
  leaves behind, together with the exception it rejected with, if any.
\<close>

record handler_ctx =
  ctx_link :: string
  ctx_route :: string
  ctx_params :: params
  ctx_force :: bool

type_synonym handler_fn = "handler_ctx \<Rightarrow> state \<Rightarrow> exn option \<times> state"

type_synonym redirection_fn = "params \<Rightarrow> string"

record 'f pattern_entry =
  name :: string
  priority :: int
  pattern :: string
  func :: 'f

text \<open>The object returned by \<^verbatim>\<open>getMatch\<close>: the matched entry with the captured parameters.\<close>

record 'f matched = "'f pattern_entry" +
  params :: params

record libraries =
  handlers :: "handler_fn pattern_entry list"
  redirections :: "redirection_fn pattern_entry list"
  api_init :: "(string \<times> bool) option"

text \<open>
  The functions and tables that \<^verbatim>\<open>actions.ts\<close> imports from files outside the verified
  sources (\<^verbatim>\<open>./libraries/route-utils\<close>, \<^verbatim>\<open>./libraries/get-match\<close>,
  \<^verbatim>\<open>./libraries/patterns\<close>, \<^verbatim>\<open>./libraries/handlers\<close>, \<^verbatim>\<open>@frontity/source\<close>,
  \<^verbatim>\<open>frontity\<close>) are parameters: every theorem below holds for any implementation of
  them. \<^verbatim>\<open>getMatch\<close> is used at two types, on the handlers and on the redirections.
  \<open>defaultStatusText\<close> is the status text that \<^verbatim>\<open>new ServerError(message, 404)\<close> carries
  when no third argument is given; \<open>error\<close> tells whether the imported \<^verbatim>\<open>error()\<close>
  throws; \<open>validURL\<close> tells whether \<^verbatim>\<open>new URL(api)\<close> succeeds; \<open>authFromEnv\<close> is
  \<^verbatim>\<open>process.env.FRONTITY_SOURCE_AUTH\<close>.
\<close>

record imported =
  normalize :: "string \<Rightarrow> string"
  parse :: "string \<Rightarrow> link_params"
  concatLink :: "string option list \<Rightarrow> string"
  getMatch_handlers :: "string \<Rightarrow> handler_fn pattern_entry list \<Rightarrow> handler_fn matched option"
  getMatch_redirections ::
    "string \<Rightarrow> redirection_fn pattern_entry list \<Rightarrow> redirection_fn matched option"
  isError :: "entry \<Rightarrow> bool"
  isSearch :: "entry \<Rightarrow> bool"
  defaultStatusText :: "string \<Rightarrow> jsval"
  error :: "string \<Rightarrow> exn option"
  validURL :: "string \<Rightarrow> bool"
  authFromEnv :: "string option"
  wpOrg :: "handler_fn pattern_entry list"
  wpCom :: "handler_fn pattern_entry list"
  postTypeHandler :: "string list \<Rightarrow> handler_fn"
  postTypeArchiveHandler :: "string \<Rightarrow> string \<Rightarrow> handler_fn"
  postTypeWithQueryHandler :: "string \<Rightarrow> string \<Rightarrow> handler_fn"
  taxonomyHandler :: "taxonomy \<Rightarrow> handler_fn"

section \<open>The fetch action\<close>

text \<open>
  The observable effects of one call of \<^verbatim>\<open>fetch\<close>: which handler was invoked with
  which context, and what was printed with \<^verbatim>\<open>console.error\<close>.
\<close>

datatype event =
    HandlerCall string handler_ctx
  | ConsoleError exn

record run =
  result :: "exn option"
  final :: state
  events :: "event list"

record fetch_options =
  force :: "bool option"

text \<open>\<^verbatim>\<open>const force = options ? options.force : false\<close>; an absent \<^verbatim>\<open>force\<close> is falsy.\<close>

definition get_force :: "fetch_options option \<Rightarrow> bool" where
  "get_force options =
     (case options of None \<Rightarrow> False
      | Some opts \<Rightarrow> (case force opts of None \<Rightarrow> False | Some b \<Rightarrow> b))"

text \<open>The object literal of lines 36--43.\<close>

definition initData :: "link_params \<Rightarrow> string \<Rightarrow> entry" where
  "initData linkParams link =
     [''isFetching'' \<mapsto> JBool True,
      ''isReady'' \<mapsto> JBool False,
      ''route'' \<mapsto> JStr (route linkParams),
      ''link'' \<mapsto> JStr link,
      ''query'' \<mapsto> query linkParams,
      ''page'' \<mapsto> page linkParams]"

text \<open>The object assigned onto an existing entry at lines 47--52.\<close>

definition reassigned :: "link_params \<Rightarrow> string \<Rightarrow> entry" where
  "reassigned linkParams link =
     [''route'' \<mapsto> JStr (route linkParams),
      ''link'' \<mapsto> JStr link,
      ''query'' \<mapsto> query linkParams,
      ''page'' \<mapsto> page linkParams]"

text \<open>The \<^verbatim>\<open>errorData\<close> literal of lines 110--121; later keys override earlier ones.\<close>

definition errorData :: "nat \<Rightarrow> jsval \<Rightarrow> link_params \<Rightarrow> string \<Rightarrow> entry" where
  "errorData status statusText linkParams link =
     [''isError'' \<mapsto> JBool True,
      ''isReady'' \<mapsto> JBool True,
      ''isFetching'' \<mapsto> JBool False,
      (''is'' @ string_of_nat status) \<mapsto> JBool True,
      ''errorStatus'' \<mapsto> JNum (int status),
      ''errorStatusText'' \<mapsto> statusText,
      ''route'' \<mapsto> JStr (route linkParams),
      ''link'' \<mapsto> JStr link,
      ''query'' \<mapsto> query linkParams,
      ''page'' \<mapsto> page linkParams]"

text \<open>
  The \<^verbatim>\<open>catch\<close> block (lines 105--126): a \<^verbatim>\<open>ServerError\<close> is logged and the entry of
  the link is replaced by \<open>errorData\<close>; anything else is thrown again.
\<close>

definition fetch_catch :: "exn \<Rightarrow> string \<Rightarrow> link_params \<Rightarrow> state \<Rightarrow> event list \<Rightarrow> run" where
  "fetch_catch e link linkParams s evs =
     (case e of
        ServerError message status statusText \<Rightarrow>
          \<lparr>result = None,
           final = s\<lparr>data := (data s)(link \<mapsto> errorData status statusText linkParams link)\<rparr>,
           events = evs @ [ConsoleError e]\<rparr>
      | _ \<Rightarrow> \<lparr>result = Some e, final = s, events = evs\<rparr>)"

text \<open>Lines 63--66: the route after the redirection, if one matches.\<close>

definition redirected :: "imported \<Rightarrow> libraries \<Rightarrow> link_params \<Rightarrow> string" where
  "redirected imp libs linkParams =
     (case getMatch_redirections imp (route linkParams) (redirections libs) of
        None \<Rightarrow> route linkParams
      | Some redirection \<Rightarrow> func redirection (params redirection))"

text \<open>Line 69: the handler for the route followed by the query string.\<close>

definition matched_handler :: "imported \<Rightarrow> libraries \<Rightarrow> link_params \<Rightarrow> handler_fn matched option" where
  "matched_handler imp libs linkParams =
     getMatch_handlers imp (redirected imp libs linkParams @ queryString linkParams) (handlers libs)"

definition no_handler_message :: "string \<Rightarrow> string" where
  "no_handler_message link =
     ''No handler has matched for the given link: '' @ [CHR 0x22] @ link @ [CHR 0x22]"

text \<open>Lines 94--97, evaluated on the entry that the handler left under the link.\<close>

definition isHome :: "imported \<Rightarrow> handler_fn matched \<Rightarrow> state \<Rightarrow> entry \<Rightarrow> bool" where
  "isHome imp handler s d =
     (\<not> (take 7 (pattern handler) = ''RegExp:'') \<and>
      \<not> isSearch imp d \<and>
      d ''route'' = Some (JStr (normalize imp (or_else (subdirectory s) ''/''))))"

text \<open>The object assigned onto the entry at lines 100--104.\<close>

definition populated :: "bool \<Rightarrow> entry" where
  "populated home =
     (if home then [''isHome'' \<mapsto> JBool True] else Map.empty)
       ++ [''isFetching'' \<mapsto> JBool False, ''isReady'' \<mapsto> JBool True]"

text \<open>
  The \<^verbatim>\<open>try\<close> block with its \<^verbatim>\<open>catch\<close> (lines 62--126). When the handler has removed
  the entry of the link, \<^verbatim>\<open>source.data[link]\<close> is \<^verbatim>\<open>undefined\<close> and lines 96--100 raise
  a \<^verbatim>\<open>TypeError\<close>, which the \<^verbatim>\<open>catch\<close> block throws again.
\<close>

definition fetch_try :: "imported \<Rightarrow> libraries \<Rightarrow> string \<Rightarrow> link_params \<Rightarrow> bool \<Rightarrow> state \<Rightarrow> run" where
  "fetch_try imp libs link linkParams frc s =
     (case matched_handler imp libs linkParams of
        None \<Rightarrow>
          fetch_catch
            (ServerError (no_handler_message link) 404
               (defaultStatusText imp (no_handler_message link)))
            link linkParams s []
      | Some handler \<Rightarrow>
          (let ctx = \<lparr>ctx_link = link, ctx_route = link,
                      ctx_params = params handler, ctx_force = frc\<rparr>;
               call = HandlerCall (name handler) ctx
           in case func handler ctx s of
                (Some e, s') \<Rightarrow> fetch_catch e link linkParams s' [call]
              | (None, s') \<Rightarrow>
                  (case data s' link of
                     None \<Rightarrow>
                       fetch_catch (TypeError ''source.data[link] is undefined'')
                         link linkParams s' [call]
                   | Some d \<Rightarrow>
                       \<lparr>result = None,
                        final = s'\<lparr>data :=
                          (data s')(link \<mapsto> d ++ populated (isHome imp handler s' d))\<rparr>,
                        events = [call]\<rparr>)))"

text \<open>
  Lines 31--59: the state in which the \<^verbatim>\<open>try\<close> block starts, or \<open>Inl\<close> of the state
  in which \<^verbatim>\<open>fetch\<close> returns early at line 55.
\<close>

definition fetch_begin ::
  "imported \<Rightarrow> string \<Rightarrow> link_params \<Rightarrow> bool \<Rightarrow> state \<Rightarrow> state + state" where
  "fetch_begin imp link linkParams frc s =
     (case data s link of
        None \<Rightarrow> Inr (s\<lparr>data := (data s)(link \<mapsto> initData linkParams link)\<rparr>)
      | Some d \<Rightarrow>
          if frc \<and> isError imp d
          then Inr (s\<lparr>data := (data s)(link \<mapsto> initData linkParams link)\<rparr>)
          else
            (let d' = d ++ reassigned linkParams link
             in if \<not> frc \<and> (truthy (d' ''isReady'') \<or> truthy (d' ''isFetching''))
                then Inl (s\<lparr>data := (data s)(link \<mapsto> d')\<rparr>)
                else Inr (s\<lparr>data := (data s)(link \<mapsto> d'(''isFetching'' \<mapsto> JBool True))\<rparr>)))"

definition fetch :: "imported \<Rightarrow> libraries \<Rightarrow> string \<Rightarrow> fetch_options option \<Rightarrow> state \<Rightarrow> run" where
  "fetch imp libs route0 options s =
     (let link = normalize imp route0;
          linkParams = parse imp route0;
          frc = get_force options
      in case fetch_begin imp link linkParams frc s of
           Inl s' \<Rightarrow> \<lparr>result = None, final = s', events = []\<rparr>
         | Inr s' \<Rightarrow> fetch_try imp libs link linkParams frc s')"

section \<open>The init action\<close>

text \<open>\<^verbatim>\<open>auth || authFromEnv\<close> on optional strings.\<close>

definition or_opt :: "string option \<Rightarrow> string option \<Rightarrow> string option" where
  "or_opt x y = (if truthy_str x then x else y)"

text \<open>A parameter inside a template literal; \<^verbatim>\<open>undefined\<close> prints as its name.\<close>

definition template :: "string option \<Rightarrow> string" where
  "template x = (case x of None \<Rightarrow> ''undefined'' | Some s \<Rightarrow> s)"

text \<open>
  The pattern of line 167, \<^verbatim>\<open>RegExp:\<close> followed by a regular expression and the post
  type; each doubled backslash of the template literal is one backslash of the string,
  the character \<open>0x5C\<close>.
\<close>

definition query_permalink_pattern :: "string \<Rightarrow> string" where
  "query_permalink_pattern t =
     ''RegExp:('' @ [CHR 0x5C] @ ''?|&)p='' @ [CHR 0x5C] @ ''d+&post_type='' @ t"

text \<open>
  One iteration of \<^verbatim>\<open>state.source.postTypes.forEach\<close> (lines 155--178): the handlers
  list after the two or three calls of \<^verbatim>\<open>handlers.push\<close>.
\<close>

definition push_post_type ::
  "imported \<Rightarrow> handler_fn pattern_entry list \<Rightarrow> post_type \<Rightarrow> handler_fn pattern_entry list" where
  "push_post_type imp hs pt =
     (let hs1 = hs @
            [\<lparr>name = pt_type pt, priority = 10,
              pattern = concatLink imp [Some (pt_type pt), Some ''/:slug''],
              func = postTypeHandler imp [pt_endpoint pt]\<rparr>];
          hs2 = hs1 @
            [\<lparr>name = pt_type pt @ '' with query permalink'', priority = 9,
              pattern = query_permalink_pattern (pt_type pt),
              func = postTypeWithQueryHandler imp (pt_type pt) (pt_endpoint pt)\<rparr>]
      in if truthy_str (pt_archive pt)
         then hs2 @
            [\<lparr>name = pt_type pt @ '' archive'', priority = 10,
              pattern = concatLink imp [pt_archive pt],
              func = postTypeArchiveHandler imp (pt_type pt) (pt_endpoint pt)\<rparr>]
         else hs2)"

text \<open>One iteration of \<^verbatim>\<open>state.source.taxonomies.forEach\<close> (lines 181--195).\<close>

definition push_taxonomy ::
  "imported \<Rightarrow> handler_fn pattern_entry list \<Rightarrow> taxonomy \<Rightarrow> handler_fn pattern_entry list" where
  "push_taxonomy imp hs tx =
     hs @ [\<lparr>name = tx_taxonomy tx, priority = 10,
            pattern = concatLink imp [Some (tx_taxonomy tx), Some ''/(.*)?/:slug''],
            func = taxonomyHandler imp tx\<rparr>]"

text \<open>Lines 149--195: what \<^verbatim>\<open>init\<close> leaves in \<^verbatim>\<open>libraries.source.handlers\<close>.\<close>

definition init_handlers ::
  "imported \<Rightarrow> state \<Rightarrow> handler_fn pattern_entry list \<Rightarrow> handler_fn pattern_entry list" where
  "init_handlers imp s hs =
     (let patterns = (if isWpCom s then wpCom imp else wpOrg imp);
          hs1 = hs @ patterns;
          hs2 = foldl (push_post_type imp) hs1 (postTypes s)
      in foldl (push_taxonomy imp) hs2 (taxonomies s))"

text \<open>
  A base-path override (lines 226--278, the same code for \<^verbatim>\<open>category\<close>, \<^verbatim>\<open>tag\<close> and
  \<^verbatim>\<open>author\<close>): the new direction and the entry that removes the old one, whose function
  returns the empty string.
\<close>

definition base_redirections ::
  "imported \<Rightarrow> state \<Rightarrow> string \<Rightarrow> string option \<Rightarrow> redirection_fn pattern_entry list" where
  "base_redirections imp s kind base =
     [\<lparr>name = kind @ '' base'', priority = 10,
       pattern = concatLink imp [subdirectory s, base, Some ''/:subpath+''],
       func = (\<lambda>p. ''/'' @ kind @ ''/'' @ template (p ''subpath'') @ ''/'')\<rparr>,
      \<lparr>name = kind @ '' base (reverse)'', priority = 10,
       pattern = concatLink imp [subdirectory s, Some (''/'' @ kind @ ''/(.*)/'')],
       func = (\<lambda>p. [])\<rparr>]"

text \<open>
  The function of the subdirectory redirection (line 287),
  \<^verbatim>\<open>({ subpath = "" }) => `/${subpath}${subpath ? "/" : ""}`\<close>.
\<close>

definition subdirectory_func :: redirection_fn where
  "subdirectory_func p =
     (let subpath = (case p ''subpath'' of None \<Rightarrow> [] | Some x \<Rightarrow> x)
      in ''/'' @ subpath @ (if subpath \<noteq> [] then ''/'' else []))"

text \<open>Lines 206--296: what \<^verbatim>\<open>init\<close> leaves in \<^verbatim>\<open>libraries.source.redirections\<close>.\<close>

definition init_redirections ::
  "imported \<Rightarrow> state \<Rightarrow> redirection_fn pattern_entry list \<Rightarrow> redirection_fn pattern_entry list" where
  "init_redirections imp s rs =
     (let rs1 = (if truthy_str (homepage s)
                 then rs @ [\<lparr>name = ''homepage'', priority = 10,
                              pattern = concatLink imp [subdirectory s],
                              func = (\<lambda>p. concatLink imp [homepage s])\<rparr>]
                 else rs);
          rs2 = (if truthy_str (postsPage s)
                 then rs1 @ [\<lparr>name = ''posts page'', priority = 10,
                               pattern = concatLink imp [subdirectory s, postsPage s],
                               func = (\<lambda>p. ''/'')\<rparr>]
                 else rs1);
          rs3 = (if truthy_str (categoryBase s)
                 then rs2 @ base_redirections imp s ''category'' (categoryBase s)
                 else rs2);
          rs4 = (if truthy_str (tagBase s)
                 then rs3 @ base_redirections imp s ''tag'' (tagBase s)
                 else rs3);
          rs5 = (if truthy_str (authorBase s)
                 then rs4 @ base_redirections imp s ''author'' (authorBase s)
                 else rs4)
      in if truthy_str (subdirectory s)
         then rs5 @
           [\<lparr>name = ''subdirectory'', priority = 10,
             pattern = concatLink imp [subdirectory s, Some ''/:subpath*''],
             func = subdirectory_func\<rparr>,
            \<lparr>name = ''subdirectory (reverse)'', priority = 10,
             pattern = ''/(.*)'',
             func = (\<lambda>p. [])\<rparr>]
         else rs5)"

text \<open>
  The whole action. When \<^verbatim>\<open>new URL(api)\<close> fails, the imported \<^verbatim>\<open>error()\<close> is called;
  if it throws, so does \<^verbatim>\<open>init\<close>. \<^verbatim>\<open>libraries.source.api.init({ api, isWpCom })\<close> is
  recorded in \<open>api_init\<close>.
\<close>

definition init :: "imported \<Rightarrow> state \<Rightarrow> libraries \<Rightarrow> exn + state \<times> libraries" where
  "init imp s libs =
     (case (if validURL imp (api s) then None
            else error imp ''Add the URL of your WordPress REST API in state.source.api.'') of
        Some e \<Rightarrow> Inl e
      | None \<Rightarrow>
          (let s1 = (if truthy_str (sourceAuth s) \<or> truthy_str (authFromEnv imp)
                     then s\<lparr>auth := or_opt (sourceAuth s) (authFromEnv imp)\<rparr>
                     else s)
           in Inr (s1,
                libs\<lparr>api_init := Some (api s, isWpCom s),
                     handlers := init_handlers imp s1 (handlers libs),
                     redirections := init_redirections imp s1 (redirections libs)\<rparr>)))"

section \<open>The router's set action\<close>

text \<open>
  The calls made on \<^verbatim>\<open>window.history\<close>, in order, with the state payload and the URL.
\<close>

datatype history_op =
    PushState jsval string
  | ReplaceState jsval string

text \<open>
  \<open>router\<close> holds \<^verbatim>\<open>state.router\<close> and \<^verbatim>\<open>state.frontity.platform\<close>, the calls made so
  far on \<^verbatim>\<open>window.history\<close> and the links passed so far to \<^verbatim>\<open>actions.source.fetch\<close>.
  \<open>history\<close> is \<open>None\<close> where the global \<^verbatim>\<open>window\<close> is not defined, as on the server.
\<close>

record router =
  router_link :: string
  router_state :: jsval
  autoFetch :: bool
  platform :: string
  history :: "history_op list option"
  fetches :: "string list"

text \<open>
  \<open>source_normalize\<close> is \<^verbatim>\<open>libraries.source.normalize\<close> when \<^verbatim>\<open>libraries.source\<close> and
  it exist; \<open>source_actions\<close> tells whether \<^verbatim>\<open>actions.source\<close> exists.
\<close>

record router_deps =
  source_normalize :: "(string \<Rightarrow> string) option"
  source_actions :: bool

record set_options =
  opt_method :: "string option"
  opt_state :: "jsval option"

text \<open>
  What \<^verbatim>\<open>set\<close> can throw: evaluating \<^verbatim>\<open>window.history\<close> where \<^verbatim>\<open>window\<close> is not
  defined raises a \<^verbatim>\<open>ReferenceError\<close>.
\<close>

datatype router_exn = ReferenceError string

text \<open>
  A call \<^verbatim>\<open>window.history.pushState(...)\<close> or \<^verbatim>\<open>window.history.replaceState(...)\<close>
  (lines 56 and 59).
\<close>

definition history_call :: "history_op \<Rightarrow> router \<Rightarrow> router_exn + router" where
  "history_call hop w =
     (case history w of
        None \<Rightarrow> Inl (ReferenceError ''window is not defined'')
      | Some ops \<Rightarrow> Inr (w\<lparr>history := Some (ops @ [hop])\<rparr>))"

text \<open>\<^verbatim>\<open>if (state.router.autoFetch) actions.source?.fetch(link)\<close>.\<close>

definition auto_fetch :: "router_deps \<Rightarrow> string \<Rightarrow> router \<Rightarrow> router" where
  "auto_fetch deps link w =
     (if autoFetch w \<and> source_actions deps then w\<lparr>fetches := fetches w @ [link]\<rparr> else w)"

text \<open>Lines 64--65.\<close>

definition set_link :: "string \<Rightarrow> jsval \<Rightarrow> router \<Rightarrow> router" where
  "set_link link st w = w\<lparr>router_link := link, router_state := st\<rparr>"

text \<open>
  The action returns the exception it throws, if any, with the router it leaves. When
  the call on \<^verbatim>\<open>window.history\<close> throws, neither the fetch nor the assignments of lines
  64--65 are reached.
\<close>

definition router_set ::
  "router_deps \<Rightarrow> string \<Rightarrow> set_options option \<Rightarrow> router \<Rightarrow> router_exn option \<times> router" where
  "router_set deps link0 options w =
     (let opts = (case options of None \<Rightarrow> \<lparr>opt_method = None, opt_state = None\<rparr> | Some x \<Rightarrow> x);
          link = (case source_normalize deps of None \<Rightarrow> link0 | Some norm \<Rightarrow> norm link0);
          st = (case opt_state opts of None \<Rightarrow> JObj []
                | Some v \<Rightarrow> if truthy_val v then v else JObj [])
      in if opt_method opts = Some ''push'' \<or>
            (\<not> truthy_str (opt_method opts) \<and> platform w = ''client'')
         then (case history_call (PushState st link) w of
                 Inl e \<Rightarrow> (Some e, w)
               | Inr w1 \<Rightarrow> (None, set_link link st (auto_fetch deps link w1)))
         else if opt_method opts = Some ''replace''
         then (case history_call (ReplaceState st link) w of
                 Inl e \<Rightarrow> (Some e, w)
               | Inr w1 \<Rightarrow> (None, set_link link st (auto_fetch deps link w1)))
         else (None, set_link link st w))"

section \<open>Example configurations\<close>

text \<open>
  Concrete inputs on which the model is evaluated below. The imported functions are
  instantiated so that they agree with the library on the links used here: a link that is
  already normalized is left as it is and has no query string, and a pattern without
  placeholders matches the path equal to it.
\<close>

definition field :: "state \<Rightarrow> string \<Rightarrow> string \<Rightarrow> jsval option" where
  "field s link k = (case data s link of None \<Rightarrow> None | Some d \<Rightarrow> d k)"

definition exact_match :: "string \<Rightarrow> 'f pattern_entry list \<Rightarrow> 'f matched option" where
  "exact_match path entries =
     (case filter (\<lambda>e. pattern e = path) entries of
        [] \<Rightarrow> None
      | e # _ \<Rightarrow> Some \<lparr>name = name e, priority = priority e, pattern = pattern e,
                        func = func e, params = Map.empty\<rparr>)"

text \<open>A handler that stores a new object under the link, then throws or resolves.\<close>

definition ex_replace :: "exn option \<Rightarrow> entry \<Rightarrow> handler_fn" where
  "ex_replace thrown d ctx s = (thrown, s\<lparr>data := (data s)(ctx_link ctx \<mapsto> d)\<rparr>)"

text \<open>
  A handler that does \<^verbatim>\<open>Object.assign(state.source.data[link], props)\<close>, then throws or
  resolves.
\<close>

definition ex_assign :: "exn option \<Rightarrow> entry \<Rightarrow> handler_fn" where
  "ex_assign thrown props ctx s =
     (case data s (ctx_link ctx) of
        None \<Rightarrow> (Some (TypeError ''Cannot convert undefined or null to object''), s)
      | Some d \<Rightarrow> (thrown, s\<lparr>data := (data s)(ctx_link ctx \<mapsto> d ++ props)\<rparr>))"

definition ex_imported :: imported where
  "ex_imported =
     \<lparr>normalize = (\<lambda>r. r),
      parse = (\<lambda>r. \<lparr>route = r, query = JObj [], page = JNum 1, queryString = []\<rparr>),
      concatLink = (\<lambda>xs. concat (map (\<lambda>x. ''/'' @ template x) xs) @ ''/''),
      getMatch_handlers = exact_match,
      getMatch_redirections = exact_match,
      isError = (\<lambda>d. d ''isError'' = Some (JBool True)),
      isSearch = (\<lambda>d. d ''isSearch'' = Some (JBool True)),
      defaultStatusText = JStr,
      error = (\<lambda>m. Some (OtherError m)),
      validURL = (\<lambda>u. take 4 u = ''http''),
      authFromEnv = None,
      wpOrg = [],
      wpCom = [],
      postTypeHandler = (\<lambda>eps. ex_assign None [''isPostType'' \<mapsto> JBool True]),
      postTypeArchiveHandler = (\<lambda>t ep. ex_assign None [''isArchive'' \<mapsto> JBool True]),
      postTypeWithQueryHandler = (\<lambda>t ep. ex_assign None [''isPostType'' \<mapsto> JBool True]),
      taxonomyHandler = (\<lambda>tx. ex_assign None [''isTaxonomy'' \<mapsto> JBool True])\<rparr>"

definition ex_state :: state where
  "ex_state =
     \<lparr>data = Map.empty, api = ''https://example.org/wp-json'', isWpCom = False,
      auth = None, sourceAuth = None, postTypes = [], taxonomies = [],
      subdirectory = None, homepage = None, postsPage = None,
      categoryBase = None, tagBase = None, authorBase = None\<rparr>"

text \<open>
  Handlers for literal links: one that stores a new object without a route, one that
  adds \<^verbatim>\<open>isHome\<close> itself, one that adds a field, one that throws a \<^verbatim>\<open>ServerError\<close>,
  one that throws something else, one for the redirected link and one for the root. The
  only redirection sends \<^verbatim>\<open>/old/\<close> to the empty string, as the reverse entries of
  \<^verbatim>\<open>init\<close> do.
\<close>

definition ex_libraries :: libraries where
  "ex_libraries =
     \<lparr>handlers =
        [\<lparr>name = ''custom'', priority = 10, pattern = ''/custom/'',
          func = ex_replace None [''type'' \<mapsto> JStr ''post'']\<rparr>,
         \<lparr>name = ''about'', priority = 10, pattern = ''/about/'',
          func = ex_assign None [''isHome'' \<mapsto> JBool True]\<rparr>,
         \<lparr>name = ''post'', priority = 10, pattern = ''/hello-world/'',
          func = ex_assign None [''id'' \<mapsto> JNum 60]\<rparr>,
         \<lparr>name = ''gone'', priority = 10, pattern = ''/gone/'',
          func = ex_assign (Some (ServerError ''Gone'' 410 (JStr ''Gone''))) Map.empty\<rparr>,
         \<lparr>name = ''broken'', priority = 10, pattern = ''/broken/'',
          func = ex_assign (Some (OtherError ''boom'')) Map.empty\<rparr>,
         \<lparr>name = ''old'', priority = 10, pattern = ''/old/'',
          func = ex_assign None [''id'' \<mapsto> JNum 7]\<rparr>,
         \<lparr>name = ''post archive'', priority = 10, pattern = ''/'',
          func = ex_assign None [''isArchive'' \<mapsto> JBool True]\<rparr>],
      redirections =
        [\<lparr>name = ''old (reverse)'', priority = 10, pattern = ''/old/'', func = (\<lambda>p. [])\<rparr>],
      api_init = None\<rparr>"

text \<open>The state after \<^verbatim>\<open>fetch("/custom/")\<close> has completed on the empty cache.\<close>

definition ex_fetched :: state where
  "ex_fetched = final (fetch ex_imported ex_libraries ''/custom/'' None ex_state)"

text \<open>The state after \<^verbatim>\<open>fetch("/gone/")\<close> has completed on the empty cache.\<close>

definition ex_gone :: state where
  "ex_gone = final (fetch ex_imported ex_libraries ''/gone/'' None ex_state)"

text \<open>A cache in which \<^verbatim>\<open>/broken/\<close> is a ready entry that is not an error.\<close>

definition ex_ready :: state where
  "ex_ready =
     ex_state\<lparr>data :=
       [''/broken/'' \<mapsto>
          [''isFetching'' \<mapsto> JBool False, ''isReady'' \<mapsto> JBool True,
           ''route'' \<mapsto> JStr ''/broken/'', ''link'' \<mapsto> JStr ''/broken/'',
           ''query'' \<mapsto> JObj [], ''page'' \<mapsto> JNum 1]]\<rparr>"

text \<open>The configuration \<^verbatim>\<open>{ postTypes: [{ type: "movie", endpoint: "movies" }] }\<close>.\<close>

definition ex_movie :: state where
  "ex_movie =
     ex_state\<lparr>postTypes := [\<lparr>pt_type = ''movie'', pt_endpoint = ''movies'', pt_archive = None\<rparr>]\<rparr>"

text \<open>
  A router on the client with \<^verbatim>\<open>autoFetch\<close> enabled, a source package that provides
  \<^verbatim>\<open>normalize\<close> and \<^verbatim>\<open>fetch\<close>, and the options that the \<^verbatim>\<open>popstate\<close> listener passes.
\<close>

definition ex_router :: router where
  "ex_router =
     \<lparr>router_link = ''/'', router_state = JObj [], autoFetch = True, platform = ''client'',
      history = Some [], fetches = []\<rparr>"

text \<open>The same router during server-side rendering, where \<^verbatim>\<open>window\<close> is not defined.\<close>

definition ex_router_server :: router where
  "ex_router_server = ex_router\<lparr>platform := ''server'', history := None\<rparr>"

definition ex_replace_option :: set_options where
  "ex_replace_option = \<lparr>opt_method = Some ''replace'', opt_state = None\<rparr>"

definition ex_router_deps :: router_deps where
  "ex_router_deps = \<lparr>source_normalize = Some (\<lambda>l. l), source_actions = True\<rparr>"

definition ex_pop :: set_options where
  "ex_pop = \<lparr>opt_method = Some ''pop'', opt_state = Some (JObj [(''scroll'', JNum 0)])\<rparr>"

section \<open>Auxiliary facts\<close>

text \<open>
  Assigning \<^verbatim>\<open>route\<close>, \<^verbatim>\<open>link\<close>, \<^verbatim>\<open>query\<close> and \<^verbatim>\<open>page\<close> onto an entry leaves every
  other property as it was.
\<close>

lemma reassigned_other:
  "k \<noteq> ''route'' \<Longrightarrow> k \<noteq> ''link'' \<Longrightarrow> k \<noteq> ''query'' \<Longrightarrow> k \<noteq> ''page'' \<Longrightarrow>
   (d ++ reassigned lp l) k = d k"
  by (simp add: reassigned_def map_add_def)

text \<open>
  The decimal numeral of a status consists of digits, so the computed key
  \<^verbatim>\<open>`is${e.status}`\<close> never coincides with another key of the error object.
\<close>

lemma digit_char_digit: "digit_char d \<in> set ''0123456789''"
proof -
  have "d mod 10 < length ''0123456789''" by simp
  then show ?thesis unfolding digit_char_def by (rule nth_mem)
qed

lemma string_of_nat_digits: "set (string_of_nat n) \<subseteq> set ''0123456789''"
proof (induction n rule: string_of_nat.induct)
  case (1 n)
  show ?case
  proof (cases "n < 10")
    case True
    then show ?thesis using digit_char_digit [of n] by (subst string_of_nat.simps) simp
  next
    case False
    then show ?thesis using 1 digit_char_digit [of "n mod 10"]
      by (subst string_of_nat.simps) simp
  qed
qed

lemma status_flag_fresh:
  "''is'' @ string_of_nat n \<noteq> ''isError''"
  "''is'' @ string_of_nat n \<noteq> ''isReady''"
  "''is'' @ string_of_nat n \<noteq> ''isFetching''"
  using string_of_nat_digits [of n] by auto

lemma errorData_fields:
  "errorData S txt lp l ''isError'' = Some (JBool True)"
  "errorData S txt lp l ''isReady'' = Some (JBool True)"
  "errorData S txt lp l ''isFetching'' = Some (JBool False)"
  "errorData S txt lp l (''is'' @ string_of_nat S) = Some (JBool True)"
  "errorData S txt lp l ''errorStatus'' = Some (JNum (int S))"
  "errorData S txt lp l ''errorStatusText'' = Some txt"
  "errorData S txt lp l ''route'' = Some (JStr (route lp))"
  "errorData S txt lp l ''link'' = Some (JStr l)"
  "errorData S txt lp l ''query'' = Some (query lp)"
  "errorData S txt lp l ''page'' = Some (page lp)"
  using status_flag_fresh [of S] by (simp_all add: errorData_def)

lemma fetch_unfold:
  "fetch imp libs r options s =
     (case fetch_begin imp (normalize imp r) (parse imp r) (get_force options) s of
        Inl s' \<Rightarrow> \<lparr>result = None, final = s', events = []\<rparr>
      | Inr s' \<Rightarrow> fetch_try imp libs (normalize imp r) (parse imp r) (get_force options) s')"
  by (simp add: fetch_def Let_def)

lemma fetch_begin_settled:
  assumes "data s l = Some d"
    and "truthy (d ''isReady'') \<or> truthy (d ''isFetching'')"
  shows "fetch_begin imp l lp False s = Inl (s\<lparr>data := (data s)(l \<mapsto> d ++ reassigned lp l)\<rparr>)"
  using assms by (simp add: fetch_begin_def Let_def reassigned_other)

text \<open>The four ways in which the \<^verbatim>\<open>try\<close> block ends.\<close>

lemma fetch_try_no_handler:
  assumes "matched_handler imp libs lp = None"
  shows "fetch_try imp libs l lp frc s =
           \<lparr>result = None,
            final = s\<lparr>data := (data s)(l \<mapsto>
              errorData 404 (defaultStatusText imp (no_handler_message l)) lp l)\<rparr>,
            events = [ConsoleError (ServerError (no_handler_message l) 404
                        (defaultStatusText imp (no_handler_message l)))]\<rparr>"
  using assms by (simp add: fetch_try_def fetch_catch_def)

lemma fetch_try_thrown:
  assumes "matched_handler imp libs lp = Some h"
    and "func h \<lparr>ctx_link = l, ctx_route = l, ctx_params = params h, ctx_force = frc\<rparr> s
           = (Some e, s')"
  shows "fetch_try imp libs l lp frc s =
           fetch_catch e l lp s'
             [HandlerCall (name h)
                \<lparr>ctx_link = l, ctx_route = l, ctx_params = params h, ctx_force = frc\<rparr>]"
  using assms by (simp add: fetch_try_def Let_def)

lemma fetch_try_resolved:
  assumes "matched_handler imp libs lp = Some h"
    and "func h \<lparr>ctx_link = l, ctx_route = l, ctx_params = params h, ctx_force = frc\<rparr> s
           = (None, s')"
    and "data s' l = Some d"
  shows "fetch_try imp libs l lp frc s =
           \<lparr>result = None,
            final = s'\<lparr>data := (data s')(l \<mapsto> d ++ populated (isHome imp h s' d))\<rparr>,
            events = [HandlerCall (name h)
                \<lparr>ctx_link = l, ctx_route = l, ctx_params = params h, ctx_force = frc\<rparr>]\<rparr>"
  using assms by (simp add: fetch_try_def Let_def)

lemma fetch_try_invokes:
  assumes "matched_handler imp libs lp = Some h"
  shows "\<exists>evs. events (fetch_try imp libs l lp frc s) =
           HandlerCall (name h)
             \<lparr>ctx_link = l, ctx_route = l, ctx_params = params h, ctx_force = frc\<rparr> # evs"
  using assms
  by (auto simp: fetch_try_def fetch_catch_def Let_def split: prod.splits option.splits exn.splits)

lemma fetch_catch_server_error:
  "fetch_catch (ServerError m S t) l lp s evs =
     \<lparr>result = None, final = s\<lparr>data := (data s)(l \<mapsto> errorData S t lp l)\<rparr>,
      events = evs @ [ConsoleError (ServerError m S t)]\<rparr>"
  by (simp add: fetch_catch_def)

lemma fetch_catch_rethrow:
  "\<not> instanceof_ServerError e \<Longrightarrow>
   fetch_catch e l lp s evs = \<lparr>result = Some e, final = s, events = evs\<rparr>"
  by (cases e) (simp_all add: fetch_catch_def)

lemma fetch_begin_forced_error:
  assumes "data s l = Some d" and "isError imp d"
  shows "fetch_begin imp l lp True s = Inr (s\<lparr>data := (data s)(l \<mapsto> initData lp l)\<rparr>)"
  using assms by (simp add: fetch_begin_def)

text \<open>
  The object assigned onto the entry after a successful handler sets \<^verbatim>\<open>isFetching\<close> and
  \<^verbatim>\<open>isReady\<close>, sets \<^verbatim>\<open>isHome\<close> when the test of lines 94--97 holds, and leaves every other
  property as it was.
\<close>

lemma populated_flags:
  "(d ++ populated b) ''isFetching'' = Some (JBool False)"
  "(d ++ populated b) ''isReady'' = Some (JBool True)"
  "(d ++ populated b) ''isHome'' = (if b then Some (JBool True) else d ''isHome'')"
  by (simp_all add: populated_def map_add_def)

lemma populated_other:
  "k \<noteq> ''isFetching'' \<Longrightarrow> k \<noteq> ''isReady'' \<Longrightarrow> k \<noteq> ''isHome'' \<Longrightarrow>
   (d ++ populated b) k = d k"
  by (simp add: populated_def map_add_def)

lemma fetch_resolved:
  assumes "fetch_begin imp (normalize imp r) (parse imp r) (get_force options) s = Inr s_try"
    and "matched_handler imp libs (parse imp r) = Some h"
    and "func h \<lparr>ctx_link = normalize imp r, ctx_route = normalize imp r,
                  ctx_params = params h, ctx_force = get_force options\<rparr> s_try
           = (None, s_handler)"
    and "data s_handler (normalize imp r) = Some d"
  shows "fetch imp libs r options s =
           \<lparr>result = None,
            final = s_handler\<lparr>data := (data s_handler)(normalize imp r \<mapsto>
                      d ++ populated (isHome imp h s_handler d))\<rparr>,
            events = [HandlerCall (name h)
                        \<lparr>ctx_link = normalize imp r, ctx_route = normalize imp r,
                         ctx_params = params h, ctx_force = get_force options\<rparr>]\<rparr>"
  using assms by (simp add: fetch_unfold fetch_try_resolved)

text \<open>
  When lines 31--59 do not return, the entry of the link is marked as being fetched; it is
  not ready if it was created or recreated, and keeps its \<^verbatim>\<open>isReady\<close> otherwise.
\<close>

lemma fetch_begin_running:
  assumes "fetch_begin imp l lp frc s = Inr s_try"
  shows "\<exists>d. data s_try l = Some d \<and> d ''isFetching'' = Some (JBool True)
           \<and> ((data s l = None \<or> (\<exists>d0. data s l = Some d0 \<and> frc \<and> isError imp d0))
                \<longrightarrow> d ''isReady'' = Some (JBool False))
           \<and> (\<forall>d0. data s l = Some d0 \<and> \<not> (frc \<and> isError imp d0)
                \<longrightarrow> d ''isReady'' = d0 ''isReady'')"
  using assms
  by (auto simp: fetch_begin_def Let_def initData_def reassigned_other
      split: option.splits if_splits)

text \<open>Evaluation of the example configuration.\<close>

lemma ex_matched_literal:
  "matched_handler ex_imported ex_libraries (parse ex_imported ''/hello-world/'') =
     Some \<lparr>name = ''post'', priority = 10, pattern = ''/hello-world/'',
           func = ex_assign None [''id'' \<mapsto> JNum 60], params = Map.empty\<rparr>"
  "matched_handler ex_imported ex_libraries (parse ex_imported ''/'') =
     Some \<lparr>name = ''post archive'', priority = 10, pattern = ''/'',
           func = ex_assign None [''isArchive'' \<mapsto> JBool True], params = Map.empty\<rparr>"
  by (simp_all add: matched_handler_def redirected_def ex_imported_def ex_libraries_def
      exact_match_def)

lemma ex_assign_fresh:
  "ex_assign thrown props \<lparr>ctx_link = l, ctx_route = l, ctx_params = ps, ctx_force = frc\<rparr>
     (ex_state\<lparr>data := [l \<mapsto> d]\<rparr>)
   = (thrown, ex_state\<lparr>data := [l \<mapsto> d ++ props]\<rparr>)"
  by (simp add: ex_assign_def ex_state_def)

lemma ex_normalize: "normalize ex_imported l = l"
  by (simp add: ex_imported_def)

text \<open>The four properties that lines 47--52 assign.\<close>

lemma reassigned_fields:
  "(d ++ reassigned lp l) ''route'' = Some (JStr (route lp))"
  "(d ++ reassigned lp l) ''link'' = Some (JStr l)"
  "(d ++ reassigned lp l) ''query'' = Some (query lp)"
  "(d ++ reassigned lp l) ''page'' = Some (page lp)"
  by (simp_all add: reassigned_def map_add_def)

section \<open>De-duplication of fetches\<close>

text \<open>
  C1 (as amended). When the entry of the link is ready or being fetched and \<^verbatim>\<open>force\<close> is
  not set, \<^verbatim>\<open>fetch\<close> returns normally without invoking any handler. It is not free of
  mutation: lines 47--52 run before the test of line 55 and assign \<^verbatim>\<open>route\<close>,
  \<^verbatim>\<open>link\<close>, \<^verbatim>\<open>query\<close> and \<^verbatim>\<open>page\<close>, as parsed from the argument, onto the entry. Every
  other property of that entry is left unchanged.
\<close>

theorem fetch_unforced_returns:
  assumes "data s (normalize imp r) = Some d"
    and "truthy (d ''isReady'') \<or> truthy (d ''isFetching'')"
    and "\<not> get_force options"
  shows "result (fetch imp libs r options s) = None
       \<and> events (fetch imp libs r options s) = []
       \<and> (\<exists>e. data (final (fetch imp libs r options s)) (normalize imp r) = Some e
              \<and> e ''route'' = Some (JStr (route (parse imp r)))
              \<and> e ''link'' = Some (JStr (normalize imp r))
              \<and> e ''query'' = Some (query (parse imp r))
              \<and> e ''page'' = Some (page (parse imp r))
              \<and> (\<forall>k. k \<notin> {''route'', ''link'', ''query'', ''page''} \<longrightarrow> e k = d k))"
proof -
  let ?e = "d ++ reassigned (parse imp r) (normalize imp r)"
  have f: "fetch imp libs r options s =
           \<lparr>result = None,
            final = s\<lparr>data := (data s)(normalize imp r \<mapsto> ?e)\<rparr>,
            events = []\<rparr>"
    using assms by (simp add: fetch_unfold fetch_begin_settled)
  have a: "result (fetch imp libs r options s) = None"
    and b: "events (fetch imp libs r options s) = []"
    and c: "data (final (fetch imp libs r options s)) (normalize imp r) = Some ?e"
    unfolding f by simp_all
  have big: "data (final (fetch imp libs r options s)) (normalize imp r) = Some ?e
          \<and> ?e ''route'' = Some (JStr (route (parse imp r)))
          \<and> ?e ''link'' = Some (JStr (normalize imp r))
          \<and> ?e ''query'' = Some (query (parse imp r))
          \<and> ?e ''page'' = Some (page (parse imp r))
          \<and> (\<forall>k. k \<notin> {''route'', ''link'', ''query'', ''page''} \<longrightarrow> ?e k = d k)"
    using c by (simp only: reassigned_fields) (simp add: reassigned_other)
  have "\<exists>e. data (final (fetch imp libs r options s)) (normalize imp r) = Some e
              \<and> e ''route'' = Some (JStr (route (parse imp r)))
              \<and> e ''link'' = Some (JStr (normalize imp r))
              \<and> e ''query'' = Some (query (parse imp r))
              \<and> e ''page'' = Some (page (parse imp r))
              \<and> (\<forall>k. k \<notin> {''route'', ''link'', ''query'', ''page''} \<longrightarrow> e k = d k)"
    by (rule exI [of _ "?e"]) (rule big)
  with a b show ?thesis by (intro conjI)
qed

text \<open>The entry that the first fetch of \<^verbatim>\<open>/custom/\<close> leaves in the example cache.\<close>

lemma ex_fetched_data:
  "data ex_fetched ''/custom/'' =
     Some [''type'' \<mapsto> JStr ''post'', ''isFetching'' \<mapsto> JBool False, ''isReady'' \<mapsto> JBool True]"
  by (simp add: ex_fetched_def fetch_def fetch_begin_def fetch_try_def matched_handler_def
      redirected_def ex_imported_def ex_libraries_def ex_state_def exact_match_def
      ex_replace_def populated_def isHome_def initData_def get_force_def Let_def)

theorem fetch_unforced_returns_witness:
  "data ex_fetched (normalize ex_imported ''/custom/'') =
     Some [''type'' \<mapsto> JStr ''post'', ''isFetching'' \<mapsto> JBool False, ''isReady'' \<mapsto> JBool True]
   \<and> \<not> get_force None
   \<and> result (fetch ex_imported ex_libraries ''/custom/'' None ex_fetched) = None
   \<and> events (fetch ex_imported ex_libraries ''/custom/'' None ex_fetched) = []
   \<and> field (final (fetch ex_imported ex_libraries ''/custom/'' None ex_fetched))
        ''/custom/'' ''type'' = Some (JStr ''post'')
   \<and> field (final (fetch ex_imported ex_libraries ''/custom/'' None ex_fetched))
        ''/custom/'' ''link'' = Some (JStr ''/custom/'')"
proof -
  let ?d = "[''type'' \<mapsto> JStr ''post'', ''isFetching'' \<mapsto> JBool False,
             ''isReady'' \<mapsto> JBool True]"
  have n: "normalize ex_imported ''/custom/'' = ''/custom/''"
    by (simp add: ex_imported_def)
  have d: "data ex_fetched (normalize ex_imported ''/custom/'') = Some ?d"
    using ex_fetched_data by (simp add: n)
  have t: "truthy (?d ''isReady'') \<or> truthy (?d ''isFetching'')"
    by simp
  have f: "\<not> get_force None"
    by (simp add: get_force_def)
  have th: "result (fetch ex_imported ex_libraries ''/custom/'' None ex_fetched) = None"
    "events (fetch ex_imported ex_libraries ''/custom/'' None ex_fetched) = []"
    "\<exists>e. data (final (fetch ex_imported ex_libraries ''/custom/'' None ex_fetched))
            ''/custom/'' = Some e
        \<and> e ''link'' = Some (JStr ''/custom/'')
        \<and> (\<forall>k. k \<notin> {''route'', ''link'', ''query'', ''page''} \<longrightarrow> e k = ?d k)"
    using fetch_unforced_returns [OF d t f, of ex_libraries] unfolding n by blast+
  from th(3) obtain e where e:
    "data (final (fetch ex_imported ex_libraries ''/custom/'' None ex_fetched)) ''/custom/''
       = Some e"
    "e ''link'' = Some (JStr ''/custom/'')"
    "\<forall>k. k \<notin> {''route'', ''link'', ''query'', ''page''} \<longrightarrow> e k = ?d k"
    by blast
  have "e ''type'' = Some (JStr ''post'')"
    using e(3) by simp
  then show ?thesis
    using d f th(1,2) e(1,2) by (simp add: field_def)
qed

text \<open>
  C1 (as stated) fails. The handler of \<^verbatim>\<open>/custom/\<close> stores an object without a route.
  The first fetch invokes it and leaves a ready entry that is not an error; the second
  fetch, without \<^verbatim>\<open>force\<close>, adds the route to that entry, so the entry is mutated.
\<close>

theorem fetch_twice_mutates_entry:
  "events (fetch ex_imported ex_libraries ''/custom/'' None ex_state) \<noteq> []
   \<and> result (fetch ex_imported ex_libraries ''/custom/'' None ex_state) = None
   \<and> field ex_fetched ''/custom/'' ''isReady'' = Some (JBool True)
   \<and> field ex_fetched ''/custom/'' ''isError'' = None
   \<and> field ex_fetched ''/custom/'' ''route'' = None
   \<and> field (final (fetch ex_imported ex_libraries ''/custom/'' None ex_fetched))
        ''/custom/'' ''route'' = Some (JStr ''/custom/'')
   \<and> data (final (fetch ex_imported ex_libraries ''/custom/'' None ex_fetched)) ''/custom/''
        \<noteq> data ex_fetched ''/custom/''"
proof -
  have a: "field ex_fetched ''/custom/'' ''route'' = None" by code_simp
  have b: "field (final (fetch ex_imported ex_libraries ''/custom/'' None ex_fetched))
        ''/custom/'' ''route'' = Some (JStr ''/custom/'')" by code_simp
  have c: "data (final (fetch ex_imported ex_libraries ''/custom/'' None ex_fetched)) ''/custom/''
        \<noteq> data ex_fetched ''/custom/''"
    using a b by (auto simp: field_def)
  have d: "events (fetch ex_imported ex_libraries ''/custom/'' None ex_state) \<noteq> []" by code_simp
  have e: "result (fetch ex_imported ex_libraries ''/custom/'' None ex_state) = None" by code_simp
  have f: "field ex_fetched ''/custom/'' ''isReady'' = Some (JBool True)" by code_simp
  have g: "field ex_fetched ''/custom/'' ''isError'' = None" by code_simp
  show ?thesis using a b c d e f g by simp
qed

section \<open>Forced fetch of an error entry\<close>

text \<open>
  C2. When the entry of the link is an error entry and \<^verbatim>\<open>force\<close> is set, \<^verbatim>\<open>fetch\<close>
  replaces the entry by a fresh one with \<^verbatim>\<open>isFetching = true\<close> and
  \<^verbatim>\<open>isReady = false\<close>, whatever \<^verbatim>\<open>isReady\<close> was in the error entry, and invokes the matched
  handler on the state so obtained. What \<^verbatim>\<open>fetch\<close> returns and leaves behind is determined
  by what that call of the handler throws and by the state it leaves: the merged ready
  entry when it resolves, the error entry when it throws a \<^verbatim>\<open>ServerError\<close>, and the
  handler's state with the exception thrown again otherwise.
\<close>

theorem fetch_forced_on_error:
  assumes "data s (normalize imp r) = Some d"
    and "isError imp d"
    and "get_force options"
    and "matched_handler imp libs (parse imp r) = Some h"
    and "func h \<lparr>ctx_link = normalize imp r, ctx_route = normalize imp r,
                  ctx_params = params h, ctx_force = True\<rparr>
           (s\<lparr>data := (data s)(normalize imp r \<mapsto>
                initData (parse imp r) (normalize imp r))\<rparr>)
         = (thrown, s_handler)"
  shows "initData (parse imp r) (normalize imp r) ''isFetching'' = Some (JBool True)
       \<and> initData (parse imp r) (normalize imp r) ''isReady'' = Some (JBool False)
       \<and> events (fetch imp libs r options s) =
           HandlerCall (name h)
             \<lparr>ctx_link = normalize imp r, ctx_route = normalize imp r,
              ctx_params = params h, ctx_force = True\<rparr>
           # (case thrown of
                Some (ServerError message status statusText) \<Rightarrow>
                  [ConsoleError (ServerError message status statusText)]
              | _ \<Rightarrow> [])
       \<and> (thrown = None \<longrightarrow>
            (\<forall>d'. data s_handler (normalize imp r) = Some d' \<longrightarrow>
               result (fetch imp libs r options s) = None \<and>
               final (fetch imp libs r options s) =
                 s_handler\<lparr>data := (data s_handler)(normalize imp r \<mapsto>
                   d' ++ populated (isHome imp h s_handler d'))\<rparr>) \<and>
            (data s_handler (normalize imp r) = None \<longrightarrow>
               result (fetch imp libs r options s)
                 = Some (TypeError ''source.data[link] is undefined'') \<and>
               final (fetch imp libs r options s) = s_handler))
       \<and> (\<forall>message status statusText.
            thrown = Some (ServerError message status statusText) \<longrightarrow>
            result (fetch imp libs r options s) = None \<and>
            final (fetch imp libs r options s) =
              s_handler\<lparr>data := (data s_handler)(normalize imp r \<mapsto>
                errorData status statusText (parse imp r) (normalize imp r))\<rparr>)
       \<and> (\<forall>e. thrown = Some e \<and> \<not> instanceof_ServerError e \<longrightarrow>
            result (fetch imp libs r options s) = Some e \<and>
            final (fetch imp libs r options s) = s_handler)"
proof -
  let ?l = "normalize imp r"
  let ?lp = "parse imp r"
  let ?s0 = "s\<lparr>data := (data s)(?l \<mapsto> initData ?lp ?l)\<rparr>"
  let ?call = "HandlerCall (name h)
             \<lparr>ctx_link = ?l, ctx_route = ?l, ctx_params = params h, ctx_force = True\<rparr>"
  have eq: "fetch imp libs r options s = fetch_try imp libs ?l ?lp True ?s0"
    using assms(1-3) by (simp add: fetch_unfold fetch_begin_forced_error)
  have flags: "initData ?lp ?l ''isFetching'' = Some (JBool True)"
    "initData ?lp ?l ''isReady'' = Some (JBool False)"
    by (simp_all add: initData_def)
  show ?thesis
  proof (cases thrown)
    case None
    show ?thesis
    proof (cases "data s_handler ?l")
      case dn: None
      have "fetch imp libs r options s =
              \<lparr>result = Some (TypeError ''source.data[link] is undefined''),
               final = s_handler, events = [?call]\<rparr>"
        unfolding eq using assms(4,5) None dn
        by (simp add: fetch_try_def fetch_catch_def Let_def)
      then show ?thesis using None dn flags by simp
    next
      case (Some d')
      have "fetch imp libs r options s =
              \<lparr>result = None,
               final = s_handler\<lparr>data := (data s_handler)(?l \<mapsto>
                         d' ++ populated (isHome imp h s_handler d'))\<rparr>,
               events = [?call]\<rparr>"
        unfolding eq using assms(4,5) None Some by (simp add: fetch_try_resolved)
      then show ?thesis using None Some flags by simp
    qed
  next
    case (Some e)
    have th: "fetch imp libs r options s = fetch_catch e ?l ?lp s_handler [?call]"
      unfolding eq using assms(4,5) Some by (simp add: fetch_try_thrown)
    show ?thesis
    proof (cases e)
      case (ServerError message status statusText)
      then show ?thesis
        using Some flags th by (simp add: fetch_catch_server_error)
    next
      case (TypeError m)
      then show ?thesis
        using Some flags th by (simp add: fetch_catch_rethrow)
    next
      case (OtherError m)
      then show ?thesis
        using Some flags th by (simp add: fetch_catch_rethrow)
    qed
  qed
qed

text \<open>The error entry that the fetch of \<^verbatim>\<open>/gone/\<close> leaves in the example cache.\<close>

lemma string_of_nat_410: "string_of_nat 410 = ''410''"
  by (simp add: string_of_nat.simps digit_char_def)

lemma ex_gone_data:
  "data ex_gone ''/gone/'' =
     Some (errorData 410 (JStr ''Gone'') (parse ex_imported ''/gone/'') ''/gone/'')"
  by (simp add: ex_gone_def fetch_def fetch_begin_def fetch_try_def matched_handler_def
      redirected_def ex_imported_def ex_libraries_def ex_state_def exact_match_def
      ex_assign_def fetch_catch_def initData_def get_force_def Let_def)

lemma ex_matched_gone:
  "matched_handler ex_imported ex_libraries (parse ex_imported ''/gone/'') =
     Some \<lparr>name = ''gone'', priority = 10, pattern = ''/gone/'',
           func = ex_assign (Some (ServerError ''Gone'' 410 (JStr ''Gone''))) Map.empty,
           params = Map.empty\<rparr>"
  by (simp add: matched_handler_def redirected_def ex_imported_def ex_libraries_def
      exact_match_def)

theorem fetch_forced_on_error_witness:
  "data ex_gone (normalize ex_imported ''/gone/'') =
     Some (errorData 410 (JStr ''Gone'') (parse ex_imported ''/gone/'') ''/gone/'')
   \<and> isError ex_imported (errorData 410 (JStr ''Gone'') (parse ex_imported ''/gone/'') ''/gone/'')
   \<and> get_force (Some \<lparr>force = Some True\<rparr>)
   \<and> events (fetch ex_imported ex_libraries ''/gone/'' (Some \<lparr>force = Some True\<rparr>) ex_gone)
       = [HandlerCall ''gone''
            \<lparr>ctx_link = ''/gone/'', ctx_route = ''/gone/'', ctx_params = Map.empty,
             ctx_force = True\<rparr>,
          ConsoleError (ServerError ''Gone'' 410 (JStr ''Gone''))]
   \<and> result (fetch ex_imported ex_libraries ''/gone/'' (Some \<lparr>force = Some True\<rparr>) ex_gone)
       = None
   \<and> data (final (fetch ex_imported ex_libraries ''/gone/'' (Some \<lparr>force = Some True\<rparr>)
              ex_gone)) ''/gone/''
       = Some (errorData 410 (JStr ''Gone'') (parse ex_imported ''/gone/'') ''/gone/'')"
proof -
  let ?l = "''/gone/''"
  let ?init = "initData (parse ex_imported ?l) ?l"
  let ?H = "\<lparr>name = ''gone'', priority = 10, pattern = ''/gone/'',
           func = ex_assign (Some (ServerError ''Gone'' 410 (JStr ''Gone''))) Map.empty,
           params = Map.empty\<rparr>"
  have n: "normalize ex_imported ?l = ?l"
    by (simp add: ex_imported_def)
  have e: "isError ex_imported (errorData 410 (JStr ''Gone'') (parse ex_imported ?l) ?l)"
    by (simp add: ex_imported_def errorData_fields)
  have f: "get_force (Some \<lparr>force = Some True\<rparr>)"
    by (simp add: get_force_def)
  have d: "data ex_gone (normalize ex_imported ?l) =
     Some (errorData 410 (JStr ''Gone'') (parse ex_imported ?l) ?l)"
    using ex_gone_data by (simp add: n)
  have h: "func ?H
        \<lparr>ctx_link = normalize ex_imported ?l, ctx_route = normalize ex_imported ?l,
         ctx_params = params ?H, ctx_force = True\<rparr>
        (ex_gone\<lparr>data := (data ex_gone)(normalize ex_imported ?l \<mapsto>
            initData (parse ex_imported ?l) (normalize ex_imported ?l))\<rparr>)
      = (Some (ServerError ''Gone'' 410 (JStr ''Gone'')),
         ex_gone\<lparr>data := (data ex_gone)(?l \<mapsto> ?init)\<rparr>)"
    by (simp add: n ex_assign_def)
  have th: "events (fetch ex_imported ex_libraries ?l (Some \<lparr>force = Some True\<rparr>) ex_gone)
       = [HandlerCall ''gone''
            \<lparr>ctx_link = ?l, ctx_route = ?l, ctx_params = Map.empty, ctx_force = True\<rparr>,
          ConsoleError (ServerError ''Gone'' 410 (JStr ''Gone''))]"
    "result (fetch ex_imported ex_libraries ?l (Some \<lparr>force = Some True\<rparr>) ex_gone) = None"
    "final (fetch ex_imported ex_libraries ?l (Some \<lparr>force = Some True\<rparr>) ex_gone)
       = ex_gone\<lparr>data := (data ex_gone)(?l \<mapsto> ?init)\<rparr>
           \<lparr>data := (data (ex_gone\<lparr>data := (data ex_gone)(?l \<mapsto> ?init)\<rparr>))(?l \<mapsto>
               errorData 410 (JStr ''Gone'') (parse ex_imported ?l) ?l)\<rparr>"
    using fetch_forced_on_error [OF d e f ex_matched_gone h] unfolding n by simp_all
  show ?thesis
    using d e f th(1,2) unfolding th(3) by simp
qed

section \<open>Errors\<close>

text \<open>
  C4. When \<^verbatim>\<open>fetch\<close> reaches the \<^verbatim>\<open>try\<close> block and no handler matches the redirected
  route, or the handler throws a \<^verbatim>\<open>ServerError\<close> with status \<open>status\<close>, then \<^verbatim>\<open>fetch\<close>
  returns normally and the entry of the link is exactly the error object, whatever the
  entry was before: \<^verbatim>\<open>isError\<close> and \<^verbatim>\<open>isReady\<close> are true, \<^verbatim>\<open>isFetching\<close> is false,
  \<^verbatim>\<open>errorStatus\<close> is the status, the flag named \<^verbatim>\<open>is\<close> followed by the status is true, and
  \<^verbatim>\<open>route\<close>, \<^verbatim>\<open>link\<close>, \<^verbatim>\<open>query\<close> and \<^verbatim>\<open>page\<close> are the parsed ones. When no handler
  matches, the status is 404.
\<close>

theorem fetch_error_entry:
  assumes "fetch_begin imp (normalize imp r) (parse imp r) (get_force options) s = Inr s_try"
  shows "(matched_handler imp libs (parse imp r) = None \<longrightarrow>
            fetch imp libs r options s =
              \<lparr>result = None,
               final = s_try\<lparr>data := (data s_try)(normalize imp r \<mapsto>
                 errorData 404 (defaultStatusText imp (no_handler_message (normalize imp r)))
                   (parse imp r) (normalize imp r))\<rparr>,
               events = [ConsoleError (ServerError (no_handler_message (normalize imp r)) 404
                           (defaultStatusText imp (no_handler_message (normalize imp r))))]\<rparr>)
       \<and> (matched_handler imp libs (parse imp r) = Some h \<and>
            func h \<lparr>ctx_link = normalize imp r, ctx_route = normalize imp r,
                    ctx_params = params h, ctx_force = get_force options\<rparr> s_try
              = (Some (ServerError message status statusText), s_handler) \<longrightarrow>
            fetch imp libs r options s =
              \<lparr>result = None,
               final = s_handler\<lparr>data := (data s_handler)(normalize imp r \<mapsto>
                 errorData status statusText (parse imp r) (normalize imp r))\<rparr>,
               events = [HandlerCall (name h)
                           \<lparr>ctx_link = normalize imp r, ctx_route = normalize imp r,
                            ctx_params = params h, ctx_force = get_force options\<rparr>,
                         ConsoleError (ServerError message status statusText)]\<rparr>)
       \<and> errorData S stext (parse imp r) (normalize imp r) ''isError'' = Some (JBool True)
       \<and> errorData S stext (parse imp r) (normalize imp r) ''isReady'' = Some (JBool True)
       \<and> errorData S stext (parse imp r) (normalize imp r) ''isFetching'' = Some (JBool False)
       \<and> errorData S stext (parse imp r) (normalize imp r) ''errorStatus'' = Some (JNum (int S))
       \<and> errorData S stext (parse imp r) (normalize imp r) (''is'' @ string_of_nat S)
            = Some (JBool True)
       \<and> errorData S stext (parse imp r) (normalize imp r) ''route''
            = Some (JStr (route (parse imp r)))
       \<and> errorData S stext (parse imp r) (normalize imp r) ''link'' = Some (JStr (normalize imp r))
       \<and> errorData S stext (parse imp r) (normalize imp r) ''query'' = Some (query (parse imp r))
       \<and> errorData S stext (parse imp r) (normalize imp r) ''page'' = Some (page (parse imp r))"
proof -
  have a: "fetch imp libs r options s =
      fetch_try imp libs (normalize imp r) (parse imp r) (get_force options) s_try"
    using assms by (simp add: fetch_unfold)
  have b: "matched_handler imp libs (parse imp r) = None \<longrightarrow>
            fetch imp libs r options s =
              \<lparr>result = None,
               final = s_try\<lparr>data := (data s_try)(normalize imp r \<mapsto>
                 errorData 404 (defaultStatusText imp (no_handler_message (normalize imp r)))
                   (parse imp r) (normalize imp r))\<rparr>,
               events = [ConsoleError (ServerError (no_handler_message (normalize imp r)) 404
                           (defaultStatusText imp (no_handler_message (normalize imp r))))]\<rparr>"
    unfolding a by (simp add: fetch_try_no_handler)
  have c: "matched_handler imp libs (parse imp r) = Some h \<and>
            func h \<lparr>ctx_link = normalize imp r, ctx_route = normalize imp r,
                    ctx_params = params h, ctx_force = get_force options\<rparr> s_try
              = (Some (ServerError message status statusText), s_handler) \<longrightarrow>
            fetch imp libs r options s =
              \<lparr>result = None,
               final = s_handler\<lparr>data := (data s_handler)(normalize imp r \<mapsto>
                 errorData status statusText (parse imp r) (normalize imp r))\<rparr>,
               events = [HandlerCall (name h)
                           \<lparr>ctx_link = normalize imp r, ctx_route = normalize imp r,
                            ctx_params = params h, ctx_force = get_force options\<rparr>,
                         ConsoleError (ServerError message status statusText)]\<rparr>"
    unfolding a by (simp add: fetch_try_thrown fetch_catch_server_error)
  show ?thesis
    using b c by (simp only: errorData_fields simp_thms)
qed

lemma ex_begin_fresh:
  "fetch_begin ex_imported l lp frc ex_state = Inr (ex_state\<lparr>data := [l \<mapsto> initData lp l]\<rparr>)"
  by (simp add: fetch_begin_def ex_state_def)

theorem fetch_error_entry_witness:
  "fetch_begin ex_imported (normalize ex_imported ''/gone/'') (parse ex_imported ''/gone/'')
     (get_force None) ex_state
     = Inr (ex_state\<lparr>data := [''/gone/'' \<mapsto> initData (parse ex_imported ''/gone/'') ''/gone/'']\<rparr>)
   \<and> result (fetch ex_imported ex_libraries ''/gone/'' None ex_state) = None
   \<and> data (final (fetch ex_imported ex_libraries ''/gone/'' None ex_state)) ''/gone/''
       = Some (errorData 410 (JStr ''Gone'') (parse ex_imported ''/gone/'') ''/gone/'')
   \<and> errorData 410 (JStr ''Gone'') (parse ex_imported ''/gone/'') ''/gone/'' ''is410''
       = Some (JBool True)"
proof -
  have n: "normalize ex_imported ''/gone/'' = ''/gone/''"
    by (simp add: ex_imported_def)
  have b: "fetch_begin ex_imported (normalize ex_imported ''/gone/'')
     (parse ex_imported ''/gone/'') (get_force None) ex_state
     = Inr (ex_state\<lparr>data := [''/gone/'' \<mapsto> initData (parse ex_imported ''/gone/'') ''/gone/'']\<rparr>)"
    by (simp add: n ex_begin_fresh)
  have h: "func \<lparr>name = ''gone'', priority = 10, pattern = ''/gone/'',
           func = ex_assign (Some (ServerError ''Gone'' 410 (JStr ''Gone''))) Map.empty,
           params = Map.empty\<rparr>
        \<lparr>ctx_link = ''/gone/'', ctx_route = ''/gone/'', ctx_params = Map.empty,
         ctx_force = get_force None\<rparr>
        (ex_state\<lparr>data := [''/gone/'' \<mapsto> initData (parse ex_imported ''/gone/'') ''/gone/'']\<rparr>)
      = (Some (ServerError ''Gone'' 410 (JStr ''Gone'')),
         ex_state\<lparr>data := [''/gone/'' \<mapsto> initData (parse ex_imported ''/gone/'') ''/gone/'']\<rparr>)"
    by (simp add: ex_assign_def ex_state_def)
  show ?thesis
    using fetch_error_entry [OF b, where libs = ex_libraries
        and h = "\<lparr>name = ''gone'', priority = 10, pattern = ''/gone/'',
           func = ex_assign (Some (ServerError ''Gone'' 410 (JStr ''Gone''))) Map.empty,
           params = Map.empty\<rparr>"
        and message = "''Gone''" and status = 410 and statusText = "JStr ''Gone''"
        and s_handler = "ex_state\<lparr>data :=
           [''/gone/'' \<mapsto> initData (parse ex_imported ''/gone/'') ''/gone/'']\<rparr>"
        and S = 410 and stext = "JStr ''Gone''"]
      ex_matched_gone h b
    by (simp add: n string_of_nat_410)
qed

text \<open>
  C5. When the handler throws an exception that is not a \<^verbatim>\<open>ServerError\<close>, \<^verbatim>\<open>fetch\<close>
  throws the same exception and leaves the state as the handler left it: no error object
  is written.
\<close>

theorem fetch_rethrows_other:
  assumes "fetch_begin imp (normalize imp r) (parse imp r) (get_force options) s = Inr s_try"
    and "matched_handler imp libs (parse imp r) = Some h"
    and "func h \<lparr>ctx_link = normalize imp r, ctx_route = normalize imp r,
                  ctx_params = params h, ctx_force = get_force options\<rparr> s_try = (Some e, s_handler)"
    and "\<not> instanceof_ServerError e"
  shows "fetch imp libs r options s =
           \<lparr>result = Some e, final = s_handler,
            events = [HandlerCall (name h)
                        \<lparr>ctx_link = normalize imp r, ctx_route = normalize imp r,
                         ctx_params = params h, ctx_force = get_force options\<rparr>]\<rparr>"
  using assms by (simp add: fetch_unfold fetch_try_thrown fetch_catch_rethrow)

lemma ex_matched_broken:
  "matched_handler ex_imported ex_libraries (parse ex_imported ''/broken/'') =
     Some \<lparr>name = ''broken'', priority = 10, pattern = ''/broken/'',
           func = ex_assign (Some (OtherError ''boom'')) Map.empty,
           params = Map.empty\<rparr>"
  by (simp add: matched_handler_def redirected_def ex_imported_def ex_libraries_def
      exact_match_def)

theorem fetch_rethrows_other_witness:
  "fetch_begin ex_imported (normalize ex_imported ''/broken/'') (parse ex_imported ''/broken/'')
     (get_force None) ex_state
     = Inr (ex_state\<lparr>data := [''/broken/'' \<mapsto> initData (parse ex_imported ''/broken/'') ''/broken/'']\<rparr>)
   \<and> \<not> instanceof_ServerError (OtherError ''boom'')
   \<and> result (fetch ex_imported ex_libraries ''/broken/'' None ex_state) = Some (OtherError ''boom'')
   \<and> field (final (fetch ex_imported ex_libraries ''/broken/'' None ex_state))
        ''/broken/'' ''isError'' = None"
proof -
  have n: "normalize ex_imported ''/broken/'' = ''/broken/''"
    by (simp add: ex_imported_def)
  have b: "fetch_begin ex_imported (normalize ex_imported ''/broken/'')
     (parse ex_imported ''/broken/'') (get_force None) ex_state
     = Inr (ex_state\<lparr>data := [''/broken/'' \<mapsto> initData (parse ex_imported ''/broken/'') ''/broken/'']\<rparr>)"
    by (simp add: n ex_begin_fresh)
  have h: "func \<lparr>name = ''broken'', priority = 10, pattern = ''/broken/'',
           func = ex_assign (Some (OtherError ''boom'')) Map.empty,
           params = Map.empty\<rparr>
        \<lparr>ctx_link = normalize ex_imported ''/broken/'', ctx_route = normalize ex_imported ''/broken/'',
         ctx_params = params \<lparr>name = ''broken'', priority = 10, pattern = ''/broken/'',
           func = ex_assign (Some (OtherError ''boom'')) Map.empty,
           params = Map.empty\<rparr>,
         ctx_force = get_force None\<rparr>
        (ex_state\<lparr>data := [''/broken/'' \<mapsto> initData (parse ex_imported ''/broken/'') ''/broken/'']\<rparr>)
      = (Some (OtherError ''boom''),
         ex_state\<lparr>data := [''/broken/'' \<mapsto> initData (parse ex_imported ''/broken/'') ''/broken/'']\<rparr>)"
    by (simp add: n ex_assign_def ex_state_def)
  have i: "\<not> instanceof_ServerError (OtherError ''boom'')" by simp
  show ?thesis
    using fetch_rethrows_other [OF b ex_matched_broken h i] b
    by (simp add: field_def initData_def)
qed

section \<open>Redirections that return the empty string\<close>

text \<open>
  C3 (as amended). When the redirection that \<^verbatim>\<open>getMatch\<close> returns for the route has a
  function that returns the empty string, the empty string replaces the route: the handler
  is looked up for the empty string followed by the query string, not for the original
  route. When no handler matches that, the fetch ends in the 404 error entry without
  invoking any handler. This is how the entries that \<^verbatim>\<open>init\<close> registers under the comment
  "Remove old direction" make the old paths unreachable.
\<close>

theorem empty_redirection_is_matched:
  assumes "getMatch_redirections imp (route (parse imp r)) (redirections libs) = Some red"
    and "func red (params red) = []"
  shows "redirected imp libs (parse imp r) = []
       \<and> matched_handler imp libs (parse imp r)
           = getMatch_handlers imp (queryString (parse imp r)) (handlers libs)
       \<and> (fetch_begin imp (normalize imp r) (parse imp r) (get_force options) s = Inr s_try \<and>
            getMatch_handlers imp (queryString (parse imp r)) (handlers libs) = None \<longrightarrow>
            result (fetch imp libs r options s) = None \<and>
            data (final (fetch imp libs r options s)) (normalize imp r)
              = Some (errorData 404 (defaultStatusText imp (no_handler_message (normalize imp r)))
                       (parse imp r) (normalize imp r)) \<and>
            events (fetch imp libs r options s)
              = [ConsoleError (ServerError (no_handler_message (normalize imp r)) 404
                   (defaultStatusText imp (no_handler_message (normalize imp r))))])"
proof -
  have a: "redirected imp libs (parse imp r) = []"
    using assms by (simp add: redirected_def)
  then have b: "matched_handler imp libs (parse imp r)
           = getMatch_handlers imp (queryString (parse imp r)) (handlers libs)"
    by (simp add: matched_handler_def)
  show ?thesis
    using a b by (simp add: fetch_unfold fetch_try_no_handler)
qed

lemma ex_redirection_old:
  "getMatch_redirections ex_imported (route (parse ex_imported ''/old/''))
     (redirections ex_libraries)
   = Some \<lparr>name = ''old (reverse)'', priority = 10, pattern = ''/old/'', func = (\<lambda>p. []),
           params = Map.empty\<rparr>"
  by (simp add: ex_imported_def ex_libraries_def exact_match_def)

theorem empty_redirection_is_matched_witness:
  "getMatch_redirections ex_imported (route (parse ex_imported ''/old/''))
     (redirections ex_libraries)
   = Some \<lparr>name = ''old (reverse)'', priority = 10, pattern = ''/old/'', func = (\<lambda>p. []),
           params = Map.empty\<rparr>
   \<and> redirected ex_imported ex_libraries (parse ex_imported ''/old/'') = []
   \<and> matched_handler ex_imported ex_libraries (parse ex_imported ''/old/'')
       = getMatch_handlers ex_imported [] (handlers ex_libraries)"
proof -
  have q: "queryString (parse ex_imported ''/old/'') = []"
    by (simp add: ex_imported_def)
  show ?thesis
    using empty_redirection_is_matched [OF ex_redirection_old, of None ex_state]
      ex_redirection_old
    by (simp add: q)
qed

text \<open>
  C3 (as stated) fails. The link \<^verbatim>\<open>/old/\<close> has a handler, and a redirection of \<^verbatim>\<open>/old/\<close>
  returns the empty string. The fetch does not go on with \<^verbatim>\<open>/old/\<close>: the route becomes the
  empty string, no handler matches it, no handler is invoked and the entry is a 404 error.
\<close>

theorem reverse_rule_empties_route:
  "redirected ex_imported ex_libraries (parse ex_imported ''/old/'') = []
   \<and> getMatch_handlers ex_imported
        (route (parse ex_imported ''/old/'') @ queryString (parse ex_imported ''/old/''))
        (handlers ex_libraries) \<noteq> None
   \<and> matched_handler ex_imported ex_libraries (parse ex_imported ''/old/'') = None
   \<and> events (fetch ex_imported ex_libraries ''/old/'' None ex_state)
       = [ConsoleError (ServerError (no_handler_message ''/old/'') 404
            (JStr (no_handler_message ''/old/'')))]
   \<and> field (final (fetch ex_imported ex_libraries ''/old/'' None ex_state))
        ''/old/'' ''errorStatus'' = Some (JNum 404)"
  by (simp add: fetch_def fetch_begin_def fetch_try_def matched_handler_def
      redirected_def ex_imported_def ex_libraries_def ex_state_def exact_match_def
      fetch_catch_def errorData_def field_def get_force_def Let_def)

section \<open>The homepage flag\<close>

text \<open>
  C6 (as amended). After a successful fetch the entry has \<^verbatim>\<open>isHome = true\<close> if and only if
  either its route equals the normalized root (the subdirectory, or \<^verbatim>\<open>/\<close> when there is
  none), the pattern of the matched handler does not start with \<^verbatim>\<open>RegExp:\<close> and the entry
  is not a search, or the handler itself left \<^verbatim>\<open>isHome = true\<close> in the entry. Line 101
  only ever adds the flag; it never removes one that the handler has set.
\<close>

theorem fetch_isHome:
  assumes "fetch_begin imp (normalize imp r) (parse imp r) (get_force options) s = Inr s_try"
    and "matched_handler imp libs (parse imp r) = Some h"
    and "func h \<lparr>ctx_link = normalize imp r, ctx_route = normalize imp r,
                  ctx_params = params h, ctx_force = get_force options\<rparr> s_try
           = (None, s_handler)"
    and "data s_handler (normalize imp r) = Some d"
  shows "\<exists>e. data (final (fetch imp libs r options s)) (normalize imp r) = Some e
           \<and> e ''route'' = d ''route''
           \<and> (e ''isHome'' = Some (JBool True)) =
               (e ''route'' = Some (JStr (normalize imp (or_else (subdirectory s_handler) ''/'')))
                  \<and> take 7 (pattern h) \<noteq> ''RegExp:''
                  \<and> \<not> isSearch imp d
                \<or> d ''isHome'' = Some (JBool True))"
proof -
  let ?e = "d ++ populated (isHome imp h s_handler d)"
  have "data (final (fetch imp libs r options s)) (normalize imp r) = Some ?e"
    using fetch_resolved [OF assms] by simp
  moreover have "?e ''route'' = d ''route''"
    by (simp add: populated_other)
  moreover have "(?e ''isHome'' = Some (JBool True)) =
               (d ''route'' = Some (JStr (normalize imp (or_else (subdirectory s_handler) ''/'')))
                  \<and> take 7 (pattern h) \<noteq> ''RegExp:''
                  \<and> \<not> isSearch imp d
                \<or> d ''isHome'' = Some (JBool True))"
    by (auto simp: populated_flags isHome_def)
  ultimately show ?thesis by simp
qed

theorem fetch_isHome_witness:
  "fetch_begin ex_imported (normalize ex_imported ''/'') (parse ex_imported ''/'')
     (get_force None) ex_state
     = Inr (ex_state\<lparr>data := [''/'' \<mapsto> initData (parse ex_imported ''/'') ''/'']\<rparr>)
   \<and> field (final (fetch ex_imported ex_libraries ''/'' None ex_state)) ''/'' ''isHome''
       = Some (JBool True)
   \<and> field (final (fetch ex_imported ex_libraries ''/'' None ex_state)) ''/'' ''route''
       = Some (JStr (normalize ex_imported (or_else (subdirectory ex_state) ''/'')))"
proof -
  let ?d = "initData (parse ex_imported ''/'') ''/''"
  have b: "fetch_begin ex_imported (normalize ex_imported ''/'') (parse ex_imported ''/'')
     (get_force None) ex_state = Inr (ex_state\<lparr>data := [''/'' \<mapsto> ?d]\<rparr>)"
    by (simp add: ex_normalize ex_begin_fresh)
  have m: "matched_handler ex_imported ex_libraries (parse ex_imported ''/'') =
     Some \<lparr>name = ''post archive'', priority = 10, pattern = ''/'',
           func = ex_assign None [''isArchive'' \<mapsto> JBool True], params = Map.empty\<rparr>"
    by (rule ex_matched_literal)
  have h: "func \<lparr>name = ''post archive'', priority = 10, pattern = ''/'',
           func = ex_assign None [''isArchive'' \<mapsto> JBool True], params = Map.empty\<rparr>
        \<lparr>ctx_link = normalize ex_imported ''/'', ctx_route = normalize ex_imported ''/'',
         ctx_params = params \<lparr>name = ''post archive'', priority = 10, pattern = ''/'',
           func = ex_assign None [''isArchive'' \<mapsto> JBool True], params = Map.empty\<rparr>,
         ctx_force = get_force None\<rparr>
        (ex_state\<lparr>data := [''/'' \<mapsto> ?d]\<rparr>)
      = (None, ex_state\<lparr>data := [''/'' \<mapsto> ?d ++ [''isArchive'' \<mapsto> JBool True]]\<rparr>)"
    by (simp add: ex_normalize ex_assign_fresh)
  have d: "data (ex_state\<lparr>data := [''/'' \<mapsto> ?d ++ [''isArchive'' \<mapsto> JBool True]]\<rparr>)
             (normalize ex_imported ''/'') = Some (?d ++ [''isArchive'' \<mapsto> JBool True])"
    by (simp add: ex_normalize)
  have i: "\<not> isSearch ex_imported (?d ++ [''isArchive'' \<mapsto> JBool True])"
    by (simp add: ex_imported_def initData_def)
  have sd: "subdirectory (ex_state\<lparr>data := [''/'' \<mapsto> ?d ++ [''isArchive'' \<mapsto> JBool True]]\<rparr>) = None"
    "subdirectory ex_state = None"
    by (simp_all add: ex_state_def)
  have rt: "(?d ++ [''isArchive'' \<mapsto> JBool True]) ''route'' = Some (JStr ''/'')"
    by (simp add: ex_imported_def initData_def)
  have ih: "(?d ++ [''isArchive'' \<mapsto> JBool True]) ''isHome'' = None"
    by (simp add: initData_def)
  have "\<exists>e. data (final (fetch ex_imported ex_libraries ''/'' None ex_state)) ''/'' = Some e
          \<and> e ''route'' = Some (JStr ''/'') \<and> e ''isHome'' = Some (JBool True)"
    using fetch_isHome [OF b m h d] i sd rt ih
    by (auto simp: ex_normalize or_else_def)
  then show ?thesis
    using b sd by (auto simp: field_def ex_normalize or_else_def)
qed

text \<open>
  C6 (as stated) fails. The handler of \<^verbatim>\<open>/about/\<close> sets \<^verbatim>\<open>isHome\<close> itself. The fetch
  succeeds and the entry has \<^verbatim>\<open>isHome = true\<close>, although its route \<^verbatim>\<open>/about/\<close> is not the
  root \<^verbatim>\<open>/\<close>.
\<close>

theorem handler_sets_isHome:
  "result (fetch ex_imported ex_libraries ''/about/'' None ex_state) = None
   \<and> field (final (fetch ex_imported ex_libraries ''/about/'' None ex_state))
        ''/about/'' ''isHome'' = Some (JBool True)
   \<and> field (final (fetch ex_imported ex_libraries ''/about/'' None ex_state))
        ''/about/'' ''route'' = Some (JStr ''/about/'')
   \<and> normalize ex_imported
        (or_else (subdirectory (final (fetch ex_imported ex_libraries ''/about/'' None ex_state)))
           ''/'') = ''/''"
  by (simp add: fetch_def fetch_begin_def fetch_try_def matched_handler_def
      redirected_def ex_imported_def ex_libraries_def ex_state_def exact_match_def
      ex_assign_def populated_def isHome_def initData_def field_def get_force_def
      or_else_def Let_def)

section \<open>The success transition\<close>

text \<open>
  C10. After a successful handler the entry of the link is the entry that the handler left,
  with \<^verbatim>\<open>isFetching\<close> set to false, \<^verbatim>\<open>isReady\<close> set to true and \<^verbatim>\<open>isHome\<close> either set to
  true or left as it was; every other property that the handler wrote is unchanged, and so
  is the rest of the state.
\<close>

theorem fetch_success_merges:
  assumes "fetch_begin imp (normalize imp r) (parse imp r) (get_force options) s = Inr s_try"
    and "matched_handler imp libs (parse imp r) = Some h"
    and "func h \<lparr>ctx_link = normalize imp r, ctx_route = normalize imp r,
                  ctx_params = params h, ctx_force = get_force options\<rparr> s_try
           = (None, s_handler)"
    and "data s_handler (normalize imp r) = Some d"
  shows "\<exists>e. fetch imp libs r options s =
             \<lparr>result = None,
              final = s_handler\<lparr>data := (data s_handler)(normalize imp r \<mapsto> e)\<rparr>,
              events = [HandlerCall (name h)
                          \<lparr>ctx_link = normalize imp r, ctx_route = normalize imp r,
                           ctx_params = params h, ctx_force = get_force options\<rparr>]\<rparr>
           \<and> e ''isFetching'' = Some (JBool False)
           \<and> e ''isReady'' = Some (JBool True)
           \<and> (e ''isHome'' = Some (JBool True) \<or> e ''isHome'' = d ''isHome'')
           \<and> (\<forall>k. k \<notin> {''isFetching'', ''isReady'', ''isHome''} \<longrightarrow> e k = d k)"
proof (intro exI conjI)
  show "fetch imp libs r options s =
             \<lparr>result = None,
              final = s_handler\<lparr>data := (data s_handler)(normalize imp r \<mapsto>
                        d ++ populated (isHome imp h s_handler d))\<rparr>,
              events = [HandlerCall (name h)
                          \<lparr>ctx_link = normalize imp r, ctx_route = normalize imp r,
                           ctx_params = params h, ctx_force = get_force options\<rparr>]\<rparr>"
    by (rule fetch_resolved [OF assms])
qed (simp_all add: populated_flags populated_other)

theorem fetch_success_merges_witness:
  "fetch_begin ex_imported (normalize ex_imported ''/hello-world/'')
     (parse ex_imported ''/hello-world/'') (get_force None) ex_state
     = Inr (ex_state\<lparr>data :=
         [''/hello-world/'' \<mapsto> initData (parse ex_imported ''/hello-world/'') ''/hello-world/'']\<rparr>)
   \<and> field (final (fetch ex_imported ex_libraries ''/hello-world/'' None ex_state))
        ''/hello-world/'' ''id'' = Some (JNum 60)
   \<and> field (final (fetch ex_imported ex_libraries ''/hello-world/'' None ex_state))
        ''/hello-world/'' ''isReady'' = Some (JBool True)"
proof -
  let ?l = "''/hello-world/''"
  let ?d = "initData (parse ex_imported ?l) ?l"
  let ?H = "\<lparr>name = ''post'', priority = 10, pattern = ''/hello-world/'',
           func = ex_assign None [''id'' \<mapsto> JNum 60], params = Map.empty\<rparr>"
  have b: "fetch_begin ex_imported (normalize ex_imported ?l) (parse ex_imported ?l)
     (get_force None) ex_state = Inr (ex_state\<lparr>data := [?l \<mapsto> ?d]\<rparr>)"
    by (simp add: ex_normalize ex_begin_fresh)
  have m: "matched_handler ex_imported ex_libraries (parse ex_imported ?l) = Some ?H"
    by (rule ex_matched_literal)
  have h: "func ?H
        \<lparr>ctx_link = normalize ex_imported ?l, ctx_route = normalize ex_imported ?l,
         ctx_params = params ?H, ctx_force = get_force None\<rparr>
        (ex_state\<lparr>data := [?l \<mapsto> ?d]\<rparr>)
      = (None, ex_state\<lparr>data := [?l \<mapsto> ?d ++ [''id'' \<mapsto> JNum 60]]\<rparr>)"
    by (simp add: ex_normalize ex_assign_fresh)
  have d: "data (ex_state\<lparr>data := [?l \<mapsto> ?d ++ [''id'' \<mapsto> JNum 60]]\<rparr>)
             (normalize ex_imported ?l) = Some (?d ++ [''id'' \<mapsto> JNum 60])"
    by (simp add: ex_normalize)
  obtain e where e: "fetch ex_imported ex_libraries ?l None ex_state =
             \<lparr>result = None,
              final = ex_state\<lparr>data := [?l \<mapsto> ?d ++ [''id'' \<mapsto> JNum 60]]\<rparr>
                        \<lparr>data := (data (ex_state\<lparr>data := [?l \<mapsto> ?d ++ [''id'' \<mapsto> JNum 60]]\<rparr>))
                           (normalize ex_imported ?l \<mapsto> e)\<rparr>,
              events = [HandlerCall (name ?H)
                          \<lparr>ctx_link = normalize ex_imported ?l, ctx_route = normalize ex_imported ?l,
                           ctx_params = params ?H, ctx_force = get_force None\<rparr>]\<rparr>"
      "e ''isReady'' = Some (JBool True)"
      "\<forall>k. k \<notin> {''isFetching'', ''isReady'', ''isHome''} \<longrightarrow>
             e k = (?d ++ [''id'' \<mapsto> JNum 60]) k"
    using fetch_success_merges [OF b m h d] by blast
  have "e ''id'' = Some (JNum 60)"
    using e(3) by simp
  then show ?thesis
    using b e(1,2) by (simp add: field_def ex_normalize)
qed

section \<open>Exceptions that leave the entry unsettled\<close>

text \<open>
  C9 (as amended). When the handler throws an exception that is not a \<^verbatim>\<open>ServerError\<close> and
  has not changed the entry of the link, that entry is left with \<^verbatim>\<open>isFetching = true\<close>. Its
  \<^verbatim>\<open>isReady\<close> is false when the fetch had created or recreated the entry (there was none,
  or \<^verbatim>\<open>force\<close> was set on an error entry), and is what it was before otherwise. From the
  state so left, every fetch of the same link without \<^verbatim>\<open>force\<close> returns normally without
  invoking any handler.
\<close>

theorem fetch_rethrow_unsettled:
  assumes "fetch_begin imp (normalize imp r) (parse imp r) (get_force options) s = Inr s_try"
    and "matched_handler imp libs (parse imp r) = Some h"
    and "func h \<lparr>ctx_link = normalize imp r, ctx_route = normalize imp r,
                  ctx_params = params h, ctx_force = get_force options\<rparr> s_try
           = (Some e, s_handler)"
    and "\<not> instanceof_ServerError e"
    and "data s_handler (normalize imp r) = data s_try (normalize imp r)"
  shows "\<exists>d. data (final (fetch imp libs r options s)) (normalize imp r) = Some d
           \<and> d ''isFetching'' = Some (JBool True)
           \<and> ((data s (normalize imp r) = None \<or>
                (\<exists>d0. data s (normalize imp r) = Some d0 \<and> get_force options \<and> isError imp d0))
                \<longrightarrow> d ''isReady'' = Some (JBool False))
           \<and> (\<forall>d0. data s (normalize imp r) = Some d0 \<and> \<not> (get_force options \<and> isError imp d0)
                \<longrightarrow> d ''isReady'' = d0 ''isReady'')
           \<and> (\<forall>r' libs' options'.
                 normalize imp r' = normalize imp r \<and> \<not> get_force options' \<longrightarrow>
                 result (fetch imp libs' r' options' (final (fetch imp libs r options s))) = None \<and>
                 events (fetch imp libs' r' options' (final (fetch imp libs r options s))) = [])"
proof -
  have fin: "final (fetch imp libs r options s) = s_handler"
    using assms(1-4) by (simp add: fetch_unfold fetch_try_thrown fetch_catch_rethrow)
  obtain d where d: "data s_try (normalize imp r) = Some d"
    "d ''isFetching'' = Some (JBool True)"
    "(data s (normalize imp r) = None \<or>
        (\<exists>d0. data s (normalize imp r) = Some d0 \<and> get_force options \<and> isError imp d0))
      \<longrightarrow> d ''isReady'' = Some (JBool False)"
    "\<forall>d0. data s (normalize imp r) = Some d0 \<and> \<not> (get_force options \<and> isError imp d0)
      \<longrightarrow> d ''isReady'' = d0 ''isReady''"
    using fetch_begin_running [OF assms(1)] by blast
  have later: "result (fetch imp libs' r' options' s_handler) = None \<and>
               events (fetch imp libs' r' options' s_handler) = []"
    if "normalize imp r' = normalize imp r" "\<not> get_force options'" for r' libs' options'
  proof -
    have "data s_handler (normalize imp r') = Some d"
      using that(1) assms(5) d(1) by simp
    moreover have "truthy (d ''isReady'') \<or> truthy (d ''isFetching'')"
      using d(2) by simp
    ultimately show ?thesis
      using that(2) by (simp add: fetch_unfold fetch_begin_settled)
  qed
  have "data (final (fetch imp libs r options s)) (normalize imp r) = Some d"
    using fin assms(5) d(1) by simp
  then show ?thesis
    using d(2-4) later unfolding fin by blast
qed

theorem fetch_rethrow_unsettled_witness:
  "fetch_begin ex_imported (normalize ex_imported ''/broken/'') (parse ex_imported ''/broken/'')
     (get_force None) ex_state
     = Inr (ex_state\<lparr>data := [''/broken/'' \<mapsto> initData (parse ex_imported ''/broken/'') ''/broken/'']\<rparr>)
   \<and> \<not> instanceof_ServerError (OtherError ''boom'')
   \<and> field (final (fetch ex_imported ex_libraries ''/broken/'' None ex_state))
        ''/broken/'' ''isFetching'' = Some (JBool True)
   \<and> field (final (fetch ex_imported ex_libraries ''/broken/'' None ex_state))
        ''/broken/'' ''isReady'' = Some (JBool False)
   \<and> events (fetch ex_imported ex_libraries ''/broken/'' None
        (final (fetch ex_imported ex_libraries ''/broken/'' None ex_state))) = []"
proof -
  let ?l = "''/broken/''"
  let ?d = "initData (parse ex_imported ?l) ?l"
  let ?H = "\<lparr>name = ''broken'', priority = 10, pattern = ''/broken/'',
           func = ex_assign (Some (OtherError ''boom'')) Map.empty,
           params = Map.empty\<rparr>"
  have b: "fetch_begin ex_imported (normalize ex_imported ?l) (parse ex_imported ?l)
     (get_force None) ex_state = Inr (ex_state\<lparr>data := [?l \<mapsto> ?d]\<rparr>)"
    by (simp add: ex_normalize ex_begin_fresh)
  have h: "func ?H
        \<lparr>ctx_link = normalize ex_imported ?l, ctx_route = normalize ex_imported ?l,
         ctx_params = params ?H, ctx_force = get_force None\<rparr>
        (ex_state\<lparr>data := [?l \<mapsto> ?d]\<rparr>)
      = (Some (OtherError ''boom''), ex_state\<lparr>data := [?l \<mapsto> ?d]\<rparr>)"
    by (simp add: ex_normalize ex_assign_fresh)
  have i: "\<not> instanceof_ServerError (OtherError ''boom'')" by simp
  have u: "data (ex_state\<lparr>data := [?l \<mapsto> ?d]\<rparr>) (normalize ex_imported ?l)
         = data (ex_state\<lparr>data := [?l \<mapsto> ?d]\<rparr>) (normalize ex_imported ?l)" ..
  have n: "data ex_state (normalize ex_imported ?l) = None"
    by (simp add: ex_state_def)
  obtain d where d:
    "data (final (fetch ex_imported ex_libraries ?l None ex_state)) (normalize ex_imported ?l)
       = Some d"
    "d ''isFetching'' = Some (JBool True)"
    "d ''isReady'' = Some (JBool False)"
    "\<forall>r' libs' options'.
        normalize ex_imported r' = normalize ex_imported ?l \<and> \<not> get_force options' \<longrightarrow>
        result (fetch ex_imported libs' r' options'
                 (final (fetch ex_imported ex_libraries ?l None ex_state))) = None \<and>
        events (fetch ex_imported libs' r' options'
                 (final (fetch ex_imported ex_libraries ?l None ex_state))) = []"
    using fetch_rethrow_unsettled [OF b ex_matched_broken h i u] n by blast
  have g: "\<not> get_force None" by (simp add: get_force_def)
  have "events (fetch ex_imported ex_libraries ?l None
        (final (fetch ex_imported ex_libraries ?l None ex_state))) = []"
    using d(4) g by blast
  then show ?thesis
    using b i d(1-3) by (simp add: field_def ex_normalize)
qed

text \<open>
  C9 (as stated) fails. The entry of \<^verbatim>\<open>/broken/\<close> is ready and a forced fetch runs the
  handler, which throws an exception that is not a \<^verbatim>\<open>ServerError\<close>. The entry is left with
  \<^verbatim>\<open>isFetching = true\<close> and \<^verbatim>\<open>isReady = true\<close>, not with \<^verbatim>\<open>isReady = false\<close>.
\<close>

theorem forced_rethrow_keeps_ready:
  "field ex_ready ''/broken/'' ''isReady'' = Some (JBool True)
   \<and> result (fetch ex_imported ex_libraries ''/broken/'' (Some \<lparr>force = Some True\<rparr>) ex_ready)
       = Some (OtherError ''boom'')
   \<and> field (final (fetch ex_imported ex_libraries ''/broken/'' (Some \<lparr>force = Some True\<rparr>)
                     ex_ready)) ''/broken/'' ''isFetching'' = Some (JBool True)
   \<and> field (final (fetch ex_imported ex_libraries ''/broken/'' (Some \<lparr>force = Some True\<rparr>)
                     ex_ready)) ''/broken/'' ''isReady'' = Some (JBool True)"
  by (simp add: fetch_def fetch_begin_def fetch_try_def matched_handler_def
      redirected_def ex_imported_def ex_libraries_def ex_state_def ex_ready_def exact_match_def
      ex_assign_def fetch_catch_def reassigned_def field_def get_force_def Let_def)

section \<open>Handlers registered by init\<close>

text \<open>
  The two \<^verbatim>\<open>forEach\<close> loops append to the list, so the handlers they register are the
  concatenation of what one iteration registers.
\<close>

lemma foldl_push_post_type:
  "foldl (push_post_type imp) hs pts =
     hs @ concat (map (\<lambda>pt. push_post_type imp [] pt) pts)"
proof (induction pts arbitrary: hs)
  case Nil
  then show ?case by simp
next
  case (Cons pt pts)
  have "push_post_type imp hs pt = hs @ push_post_type imp [] pt"
    by (simp add: push_post_type_def Let_def)
  then show ?case by (simp add: Cons.IH)
qed

lemma foldl_push_taxonomy:
  "foldl (push_taxonomy imp) hs txs =
     hs @ concat (map (\<lambda>tx. push_taxonomy imp [] tx) txs)"
proof (induction txs arbitrary: hs)
  case Nil
  then show ?case by simp
next
  case (Cons tx txs)
  have "push_taxonomy imp hs tx = hs @ push_taxonomy imp [] tx"
    by (simp add: push_taxonomy_def)
  then show ?case by (simp add: Cons.IH)
qed

lemma init_Inr:
  assumes "init imp s libs = Inr (s', libs')"
  shows "handlers libs' = init_handlers imp s' (handlers libs)"
    and "postTypes s' = postTypes s"
    and "taxonomies s' = taxonomies s"
    and "isWpCom s' = isWpCom s"
  using assms by (auto simp: init_def Let_def split: option.splits if_splits)

text \<open>
  C7. When \<^verbatim>\<open>init\<close> does not throw, the handlers list is the one before, followed by the
  built-in patterns, followed for each declared post type, in order, by a single-item entry
  with priority 10 and the \<^verbatim>\<open>:slug\<close> pattern, a query-permalink entry with priority 9
  whose pattern starts with \<^verbatim>\<open>RegExp:\<close>, and an archive entry with priority 10 exactly when
  the post type declares a non-empty archive, followed by one entry per taxonomy. For the
  post types \<^verbatim>\<open>[{ type: "movie", endpoint: "movies" }]\<close> the entries registered for post
  types are the single-item one and the query-permalink one, and no archive entry.
\<close>

theorem init_registers_post_types:
  assumes "init imp s libs = Inr (s', libs')"
  shows "handlers libs' =
           handlers libs @ (if isWpCom s then wpCom imp else wpOrg imp)
           @ concat (map (\<lambda>pt.
               [\<lparr>name = pt_type pt, priority = 10,
                 pattern = concatLink imp [Some (pt_type pt), Some ''/:slug''],
                 func = postTypeHandler imp [pt_endpoint pt]\<rparr>,
                \<lparr>name = pt_type pt @ '' with query permalink'', priority = 9,
                 pattern = query_permalink_pattern (pt_type pt),
                 func = postTypeWithQueryHandler imp (pt_type pt) (pt_endpoint pt)\<rparr>]
               @ (if truthy_str (pt_archive pt)
                  then [\<lparr>name = pt_type pt @ '' archive'', priority = 10,
                         pattern = concatLink imp [pt_archive pt],
                         func = postTypeArchiveHandler imp (pt_type pt) (pt_endpoint pt)\<rparr>]
                  else [])) (postTypes s))
           @ map (\<lambda>tx.
               \<lparr>name = tx_taxonomy tx, priority = 10,
                pattern = concatLink imp [Some (tx_taxonomy tx), Some ''/(.*)?/:slug''],
                func = taxonomyHandler imp tx\<rparr>) (taxonomies s)
       \<and> (postTypes s = [\<lparr>pt_type = ''movie'', pt_endpoint = ''movies'', pt_archive = None\<rparr>] \<longrightarrow>
            handlers libs' =
              handlers libs @ (if isWpCom s then wpCom imp else wpOrg imp)
              @ [\<lparr>name = ''movie'', priority = 10,
                  pattern = concatLink imp [Some ''movie'', Some ''/:slug''],
                  func = postTypeHandler imp [''movies'']\<rparr>,
                 \<lparr>name = ''movie with query permalink'', priority = 9,
                  pattern = query_permalink_pattern ''movie'',
                  func = postTypeWithQueryHandler imp ''movie'' ''movies''\<rparr>]
              @ map (\<lambda>tx.
                  \<lparr>name = tx_taxonomy tx, priority = 10,
                   pattern = concatLink imp [Some (tx_taxonomy tx), Some ''/(.*)?/:slug''],
                   func = taxonomyHandler imp tx\<rparr>) (taxonomies s))
       \<and> take 7 (query_permalink_pattern t) = ''RegExp:''"
proof -
  have q: "take 7 (query_permalink_pattern t) = ''RegExp:''" for t
    by (simp add: query_permalink_pattern_def)
  have pt: "push_post_type imp [] pt =
               [\<lparr>name = pt_type pt, priority = 10,
                 pattern = concatLink imp [Some (pt_type pt), Some ''/:slug''],
                 func = postTypeHandler imp [pt_endpoint pt]\<rparr>,
                \<lparr>name = pt_type pt @ '' with query permalink'', priority = 9,
                 pattern = query_permalink_pattern (pt_type pt),
                 func = postTypeWithQueryHandler imp (pt_type pt) (pt_endpoint pt)\<rparr>]
               @ (if truthy_str (pt_archive pt)
                  then [\<lparr>name = pt_type pt @ '' archive'', priority = 10,
                         pattern = concatLink imp [pt_archive pt],
                         func = postTypeArchiveHandler imp (pt_type pt) (pt_endpoint pt)\<rparr>]
                  else [])" for pt
    by (simp add: push_post_type_def Let_def)
  have tx: "concat (map (\<lambda>tx. push_taxonomy imp [] tx) txs) =
            map (\<lambda>tx.
               \<lparr>name = tx_taxonomy tx, priority = 10,
                pattern = concatLink imp [Some (tx_taxonomy tx), Some ''/(.*)?/:slug''],
                func = taxonomyHandler imp tx\<rparr>) txs" for txs
    by (induction txs) (simp_all add: push_taxonomy_def)
  have all: "handlers libs' =
           handlers libs @ (if isWpCom s then wpCom imp else wpOrg imp)
           @ concat (map (\<lambda>pt. push_post_type imp [] pt) (postTypes s))
           @ concat (map (\<lambda>tx. push_taxonomy imp [] tx) (taxonomies s))"
    using init_Inr [OF assms]
    by (simp add: init_handlers_def Let_def foldl_push_post_type foldl_push_taxonomy)
  have first: "handlers libs' =
           handlers libs @ (if isWpCom s then wpCom imp else wpOrg imp)
           @ concat (map (\<lambda>pt.
               [\<lparr>name = pt_type pt, priority = 10,
                 pattern = concatLink imp [Some (pt_type pt), Some ''/:slug''],
                 func = postTypeHandler imp [pt_endpoint pt]\<rparr>,
                \<lparr>name = pt_type pt @ '' with query permalink'', priority = 9,
                 pattern = query_permalink_pattern (pt_type pt),
                 func = postTypeWithQueryHandler imp (pt_type pt) (pt_endpoint pt)\<rparr>]
               @ (if truthy_str (pt_archive pt)
                  then [\<lparr>name = pt_type pt @ '' archive'', priority = 10,
                         pattern = concatLink imp [pt_archive pt],
                         func = postTypeArchiveHandler imp (pt_type pt) (pt_endpoint pt)\<rparr>]
                  else [])) (postTypes s))
           @ map (\<lambda>tx.
               \<lparr>name = tx_taxonomy tx, priority = 10,
                pattern = concatLink imp [Some (tx_taxonomy tx), Some ''/(.*)?/:slug''],
                func = taxonomyHandler imp tx\<rparr>) (taxonomies s)"
    unfolding all pt tx ..
  show ?thesis
  proof (intro conjI impI)
    show "handlers libs' =
           handlers libs @ (if isWpCom s then wpCom imp else wpOrg imp)
           @ concat (map (\<lambda>pt.
               [\<lparr>name = pt_type pt, priority = 10,
                 pattern = concatLink imp [Some (pt_type pt), Some ''/:slug''],
                 func = postTypeHandler imp [pt_endpoint pt]\<rparr>,
                \<lparr>name = pt_type pt @ '' with query permalink'', priority = 9,
                 pattern = query_permalink_pattern (pt_type pt),
                 func = postTypeWithQueryHandler imp (pt_type pt) (pt_endpoint pt)\<rparr>]
               @ (if truthy_str (pt_archive pt)
                  then [\<lparr>name = pt_type pt @ '' archive'', priority = 10,
                         pattern = concatLink imp [pt_archive pt],
                         func = postTypeArchiveHandler imp (pt_type pt) (pt_endpoint pt)\<rparr>]
                  else [])) (postTypes s))
           @ map (\<lambda>tx.
               \<lparr>name = tx_taxonomy tx, priority = 10,
                pattern = concatLink imp [Some (tx_taxonomy tx), Some ''/(.*)?/:slug''],
                func = taxonomyHandler imp tx\<rparr>) (taxonomies s)"
      by (rule first)
  next
    assume "postTypes s = [\<lparr>pt_type = ''movie'', pt_endpoint = ''movies'', pt_archive = None\<rparr>]"
    then show "handlers libs' =
              handlers libs @ (if isWpCom s then wpCom imp else wpOrg imp)
              @ [\<lparr>name = ''movie'', priority = 10,
                  pattern = concatLink imp [Some ''movie'', Some ''/:slug''],
                  func = postTypeHandler imp [''movies'']\<rparr>,
                 \<lparr>name = ''movie with query permalink'', priority = 9,
                  pattern = query_permalink_pattern ''movie'',
                  func = postTypeWithQueryHandler imp ''movie'' ''movies''\<rparr>]
              @ map (\<lambda>tx.
                  \<lparr>name = tx_taxonomy tx, priority = 10,
                   pattern = concatLink imp [Some (tx_taxonomy tx), Some ''/(.*)?/:slug''],
                   func = taxonomyHandler imp tx\<rparr>) (taxonomies s)"
      unfolding first by simp
  next
    show "take 7 (query_permalink_pattern t) = ''RegExp:''"
      by (rule q)
  qed
qed

text \<open>\<^verbatim>\<open>init\<close> on the movie configuration does not throw.\<close>

lemma ex_movie_init:
  "init ex_imported ex_movie ex_libraries =
     Inr (ex_movie,
          ex_libraries\<lparr>api_init := Some (api ex_movie, isWpCom ex_movie),
                       handlers := init_handlers ex_imported ex_movie (handlers ex_libraries),
                       redirections :=
                         init_redirections ex_imported ex_movie (redirections ex_libraries)\<rparr>)"
proof -
  have "validURL ex_imported (api ex_movie)"
    by (simp add: ex_imported_def ex_movie_def ex_state_def)
  moreover have "sourceAuth ex_movie = None" "authFromEnv ex_imported = None"
    by (simp_all add: ex_imported_def ex_movie_def ex_state_def)
  ultimately show ?thesis
    by (simp add: init_def Let_def)
qed

theorem init_registers_post_types_witness:
  "init ex_imported ex_movie ex_libraries =
     Inr (ex_movie,
          ex_libraries\<lparr>api_init := Some (api ex_movie, isWpCom ex_movie),
                       handlers := init_handlers ex_imported ex_movie (handlers ex_libraries),
                       redirections :=
                         init_redirections ex_imported ex_movie (redirections ex_libraries)\<rparr>)
   \<and> map name (drop (length (handlers ex_libraries))
         (init_handlers ex_imported ex_movie (handlers ex_libraries)))
       = [''movie'', ''movie with query permalink'']
   \<and> map priority (drop (length (handlers ex_libraries))
         (init_handlers ex_imported ex_movie (handlers ex_libraries)))
       = [10, 9]"
proof -
  have p: "postTypes ex_movie
             = [\<lparr>pt_type = ''movie'', pt_endpoint = ''movies'', pt_archive = None\<rparr>]"
    "taxonomies ex_movie = []" "isWpCom ex_movie = False"
    by (simp_all add: ex_movie_def ex_state_def)
  have w: "wpOrg ex_imported = []"
    by (simp add: ex_imported_def)
  have "init_handlers ex_imported ex_movie (handlers ex_libraries) =
          handlers ex_libraries
          @ [\<lparr>name = ''movie'', priority = 10,
              pattern = concatLink ex_imported [Some ''movie'', Some ''/:slug''],
              func = postTypeHandler ex_imported [''movies'']\<rparr>,
             \<lparr>name = ''movie with query permalink'', priority = 9,
              pattern = query_permalink_pattern ''movie'',
              func = postTypeWithQueryHandler ex_imported ''movie'' ''movies''\<rparr>]"
    using init_registers_post_types [OF ex_movie_init] p w by simp
  then show ?thesis
    using ex_movie_init by simp
qed

section \<open>History and fetches of the router's set action\<close>

text \<open>
  C8 (as amended). For every call of \<^verbatim>\<open>set\<close>: the link is normalized when the source
  library provides \<^verbatim>\<open>normalize\<close>. With the method \<^verbatim>\<open>push\<close>, or with no method on the
  client, where \<^verbatim>\<open>window.history\<close> exists, a history entry is pushed; with the method
  \<^verbatim>\<open>replace\<close> it is replaced; in these cases, and only in these, a fetch of the link is
  triggered when \<^verbatim>\<open>autoFetch\<close> is enabled and the source actions exist. In every other
  mode, the \<^verbatim>\<open>pop\<close> mode among them, neither the history is touched nor a fetch triggered.
  In all the cases named, \<^verbatim>\<open>set\<close> returns normally with \<^verbatim>\<open>state.router.link\<close> and
  \<^verbatim>\<open>state.router.state\<close> set to the new link and state payload.
\<close>

theorem router_set_effects:
  assumes "opts = (case options of None \<Rightarrow> \<lparr>opt_method = None, opt_state = None\<rparr> | Some x \<Rightarrow> x)"
    and "link = (case source_normalize deps of None \<Rightarrow> link0 | Some norm \<Rightarrow> norm link0)"
    and "st = (case opt_state opts of None \<Rightarrow> JObj []
               | Some v \<Rightarrow> if truthy_val v then v else JObj [])"
    and "router_set deps link0 options w = (thrown, w')"
  shows "((opt_method opts = Some ''push'' \<or>
            (\<not> truthy_str (opt_method opts) \<and> platform w = ''client'')) \<and>
           history w = Some ops \<longrightarrow>
            thrown = None \<and>
            history w' = Some (ops @ [PushState st link]) \<and>
            fetches w' = fetches w @ (if autoFetch w \<and> source_actions deps then [link] else []) \<and>
            router_link w' = link \<and> router_state w' = st \<and>
            autoFetch w' = autoFetch w \<and> platform w' = platform w)
       \<and> (opt_method opts = Some ''replace'' \<and> history w = Some ops \<longrightarrow>
            thrown = None \<and>
            history w' = Some (ops @ [ReplaceState st link]) \<and>
            fetches w' = fetches w @ (if autoFetch w \<and> source_actions deps then [link] else []) \<and>
            router_link w' = link \<and> router_state w' = st \<and>
            autoFetch w' = autoFetch w \<and> platform w' = platform w)
       \<and> (opt_method opts \<noteq> Some ''push'' \<and> opt_method opts \<noteq> Some ''replace'' \<and>
            (truthy_str (opt_method opts) \<or> platform w \<noteq> ''client'') \<longrightarrow>
            thrown = None \<and>
            history w' = history w \<and> fetches w' = fetches w \<and>
            router_link w' = link \<and> router_state w' = st \<and>
            autoFetch w' = autoFetch w \<and> platform w' = platform w)"
  using assms
  by (auto simp: router_set_def history_call_def auto_fetch_def set_link_def Let_def)

theorem router_set_effects_witness:
  "history ex_router = Some []
   \<and> platform ex_router = ''client''
   \<and> fst (router_set ex_router_deps ''/about/'' None ex_router) = None
   \<and> router_link (snd (router_set ex_router_deps ''/about/'' None ex_router)) = ''/about/''
   \<and> history (snd (router_set ex_router_deps ''/about/'' None ex_router))
       = Some [PushState (JObj []) ''/about/'']
   \<and> fetches (snd (router_set ex_router_deps ''/about/'' None ex_router)) = [''/about/'']"
proof -
  have p: "router_set ex_router_deps ''/about/'' None ex_router
         = (fst (router_set ex_router_deps ''/about/'' None ex_router),
            snd (router_set ex_router_deps ''/about/'' None ex_router))"
    by simp
  show ?thesis
    using router_set_effects [where opts = "\<lparr>opt_method = None, opt_state = None\<rparr>"
        and options = None and link = "''/about/''" and deps = ex_router_deps
        and link0 = "''/about/''" and st = "JObj []" and w = ex_router and ops = "[]",
        OF _ _ _ p]
    by (simp add: ex_router_deps_def ex_router_def)
qed

text \<open>
  C8 (as stated) fails. In \<^verbatim>\<open>pop\<close> mode, with \<^verbatim>\<open>autoFetch\<close> enabled and a source package
  installed, \<^verbatim>\<open>set\<close> updates the link but triggers no fetch.
\<close>

theorem pop_mode_does_not_fetch:
  "autoFetch ex_router
   \<and> source_actions ex_router_deps
   \<and> opt_method ex_pop = Some ''pop''
   \<and> fst (router_set ex_router_deps ''/about/'' (Some ex_pop) ex_router) = None
   \<and> fetches (snd (router_set ex_router_deps ''/about/'' (Some ex_pop) ex_router)) = []
   \<and> history (snd (router_set ex_router_deps ''/about/'' (Some ex_pop) ex_router)) = Some []
   \<and> router_link (snd (router_set ex_router_deps ''/about/'' (Some ex_pop) ex_router))
       = ''/about/''"
  by (simp add: router_set_def auto_fetch_def set_link_def ex_router_def ex_router_deps_def
      ex_pop_def)

text \<open>
  Where \<^verbatim>\<open>window\<close> is not defined, the call on \<^verbatim>\<open>window.history\<close> throws and lines 64--65
  are not reached: the router is left as it was.
\<close>

lemma server_replace_throws:
  "router_set ex_router_deps ''/about/'' (Some ex_replace_option) ex_router_server
     = (Some (ReferenceError ''window is not defined''), ex_router_server)"
  by (simp add: router_set_def history_call_def ex_router_server_def ex_router_def
      ex_replace_option_def ex_router_deps_def)

end
